theory Spec2Isabelle
  imports Complex_Main
begin

section \<open>Data model (the Mongoose schemas of server.js)\<close>

text \<open>
  A JavaScript \<^verbatim>\<open>Number\<close> is modelled exactly: \<open>int\<close> for legacy ids and counts,
  \<open>rat\<close> for ratings and prices. A \<^verbatim>\<open>Date\<close> is a millisecond time stamp. A string is
  a list of characters with codes 0..255, read as the code points U+0000..U+00FF.
  An \<^verbatim>\<open>ObjectId\<close> is a natural number.
\<close>

type_synonym objectId = nat
type_synonym date = nat

text \<open>\<^verbatim>\<open>ProductSchema\<close> (server.js 63-86), with the document's \<^verbatim>\<open>_id\<close>.\<close>

record product =
  p_oid :: objectId
  legacyId :: int
  p_name :: string
  dateAdded :: "date option"
  category :: "string list"
  images :: "string list"
  description :: "string option"
  p_rating :: rat
  reviewsCount :: int
  sellerTag :: "string option"
  p_price :: rat
  originalPrice :: "rat option"
  deliveryDate :: "string option"

text \<open>\<^verbatim>\<open>CommentSchema\<close> (server.js 89-96); \<open>c_rating = None\<close> is a comment without rating.\<close>

record comment =
  productId :: objectId
  username :: string
  c_comment :: string
  c_rating :: "rat option"
  createdAt :: date
  verifiedPurchase :: bool

text \<open>\<^verbatim>\<open>OrderSchema\<close> (server.js 99-126).\<close>

record customer =
  firstname :: string
  lastname :: string
  email :: string
  phone :: string
  address1 :: string
  address2 :: "string option"
  city :: string
  u_state :: string
  u_zip :: string

record item =
  i_id :: int
  i_name :: string
  quantity :: int
  i_price :: rat

record order =
  orderId :: string
  o_date :: date
  o_user :: customer
  o_total :: rat
  items :: "item list"

text \<open>
  The document store: the three collections in insertion order, and the supply of
  fresh \<^verbatim>\<open>_id\<close> values for new Product documents.
\<close>

record store =
  products :: "product list"
  comments :: "comment list"
  orders :: "order list"
  nextId :: objectId

section \<open>String operations used by the purchase check\<close>

definition isWhiteSpace :: "char \<Rightarrow> bool" where
  "isWhiteSpace c =
     (let n = (of_char c :: nat)
      in n = 9 \<or> n = 10 \<or> n = 11 \<or> n = 12 \<or> n = 13 \<or> n = 32 \<or> n = 160)"

text \<open>\<^verbatim>\<open>String.prototype.trim\<close>: strips white space and line terminators at both ends.\<close>

definition trim :: "string \<Rightarrow> string" where
  "trim s = rev (dropWhile isWhiteSpace (rev (dropWhile isWhiteSpace s)))"

definition lowerChar :: "char \<Rightarrow> char" where
  "lowerChar c =
     (let n = (of_char c :: nat)
      in if (65 \<le> n \<and> n \<le> 90) \<or> (192 \<le> n \<and> n \<le> 222 \<and> n \<noteq> 215)
         then char_of (n + 32) else c)"

text \<open>\<^verbatim>\<open>String.prototype.toLowerCase\<close> on U+0000..U+00FF.\<close>

definition toLowerCase :: "string \<Rightarrow> string" where
  "toLowerCase s = map lowerChar s"

fun startsWith :: "string \<Rightarrow> string \<Rightarrow> bool" where
  "startsWith s [] = True"
| "startsWith [] (c # t) = False"
| "startsWith (a # s) (c # t) = (a = c \<and> startsWith s t)"

text \<open>\<^verbatim>\<open>String.prototype.includes\<close>: \<open>t\<close> occurs in \<open>s\<close> as a contiguous substring.\<close>

fun js_includes :: "string \<Rightarrow> string \<Rightarrow> bool" where
  "js_includes [] t = (t = [])"
| "js_includes (a # s) t = (startsWith (a # s) t \<or> js_includes s t)"

section \<open>Purchase verification (server.js 276-288 and 517-527)\<close>

text \<open>\<^verbatim>\<open>Order.find({ 'items.id': legacyId })\<close>\<close>

definition find_orders_by_item :: "order list \<Rightarrow> int \<Rightarrow> order list" where
  "find_orders_by_item os lid = filter (\<lambda>order. list_ex (\<lambda>it. i_id it = lid) (items order)) os"

text \<open>
  The template string \<^verbatim>\<open>`${order.user.firstname || ''} ${order.user.lastname || ''}`\<close>,
  lower-cased and trimmed. Both names are required strings of the schema, on which
  \<^verbatim>\<open>|| ''\<close> is the identity.
\<close>

definition customerName :: "order \<Rightarrow> string" where
  "customerName order =
     trim (toLowerCase (firstname (o_user order) @ '' '' @ lastname (o_user order)))"

text \<open>
  The verification block. The review endpoint and the migration of embedded reviews
  contain the same statements, so both use this definition.
\<close>

definition isVerified :: "order list \<Rightarrow> string \<Rightarrow> bool" where
  "isVerified ordersWithProduct user =
     (if length ordersWithProduct > 0
      then (let reviewerName = trim (toLowerCase user)
            in list_ex (\<lambda>order. js_includes (customerName order) reviewerName) ordersWithProduct)
      else False)"

definition isVerifiedPurchase :: "store \<Rightarrow> int \<Rightarrow> string \<Rightarrow> bool" where
  "isVerifiedPurchase s lid user = isVerified (find_orders_by_item (orders s) lid) user"

section \<open>Store queries\<close>

text \<open>\<^verbatim>\<open>Product.findOne({ legacyId: legacyId })\<close>\<close>

definition findOne_legacyId :: "product list \<Rightarrow> int \<Rightarrow> product option" where
  "findOne_legacyId ps lid = find (\<lambda>p. legacyId p = lid) ps"

text \<open>\<^verbatim>\<open>Product.findById(productId)\<close>\<close>

definition findById :: "product list \<Rightarrow> objectId \<Rightarrow> product option" where
  "findById ps i = find (\<lambda>p. p_oid p = i) ps"

text \<open>\<^verbatim>\<open>Product.findOne().sort({ legacyId: -1 })\<close>: a product with the largest legacy id.\<close>

definition findOne_sort_desc :: "product list \<Rightarrow> product option" where
  "findOne_sort_desc ps =
     (case ps of [] \<Rightarrow> None
      | p # qs \<Rightarrow> Some (foldl (\<lambda>best q. if legacyId best < legacyId q then q else best) p qs))"

text \<open>\<^verbatim>\<open>Product.findOne().sort({ legacyId: 1 })\<close>: a product with the smallest legacy id.\<close>

definition findOne_sort_asc :: "product list \<Rightarrow> product option" where
  "findOne_sort_asc ps =
     (case ps of [] \<Rightarrow> None
      | p # qs \<Rightarrow> Some (foldl (\<lambda>best q. if legacyId q < legacyId best then q else best) p qs))"

section \<open>Documents: schema setters, defaults and validators\<close>

text \<open>
  \<^verbatim>\<open>new Comment({...})\<close>: \<^verbatim>\<open>trim: true\<close> trims \<^verbatim>\<open>username\<close> and \<^verbatim>\<open>comment\<close>.
  The caller passes the defaults of \<^verbatim>\<open>createdAt\<close> and \<^verbatim>\<open>verifiedPurchase\<close> where
  the source leaves them out.
\<close>

definition mkComment :: "objectId \<Rightarrow> string \<Rightarrow> rat option \<Rightarrow> string \<Rightarrow> date \<Rightarrow> bool \<Rightarrow> comment" where
  "mkComment pid user r msg d v =
     \<lparr>productId = pid, username = trim user, c_comment = trim msg, c_rating = r,
      createdAt = d, verifiedPurchase = v\<rparr>"

text \<open>
  Validation of a Comment on save: \<^verbatim>\<open>username\<close> and \<^verbatim>\<open>comment\<close> are required (an
  empty string fails), a rating that is set lies in 1..5.
\<close>

definition validComment :: "comment \<Rightarrow> bool" where
  "validComment c =
     (username c \<noteq> [] \<and> c_comment c \<noteq> [] \<and>
      (case c_rating c of None \<Rightarrow> True | Some r \<Rightarrow> 1 \<le> r \<and> r \<le> 5))"

text \<open>\<^verbatim>\<open>newComment.save()\<close>; \<open>None\<close> is the thrown validation error.\<close>

definition save_comment :: "comment \<Rightarrow> store \<Rightarrow> store option" where
  "save_comment c s =
     (if validComment c then Some (s\<lparr>comments := comments s @ [c]\<rparr>) else None)"

text \<open>
  \<^verbatim>\<open>Comment.insertMany(docs)\<close> and \<^verbatim>\<open>Comment.create(docs)\<close> on documents that are all
  valid; one invalid document makes \<^verbatim>\<open>insertMany\<close> throw before anything is written.
\<close>

definition insertMany :: "comment list \<Rightarrow> store \<Rightarrow> store option" where
  "insertMany cs s =
     (if list_all validComment cs then Some (s\<lparr>comments := comments s @ cs\<rparr>) else None)"

text \<open>
  The fields of a product a client or the legacy file supplies: the body of
  \<^verbatim>\<open>POST /api/products\<close>, and the common part of a legacy record.
\<close>

record product_body =
  b_name :: "string option"
  b_category :: "string list"
  b_images :: "string list"
  b_description :: "string option"
  b_rating :: "rat option"
  b_reviewsCount :: "int option"
  b_sellerTag :: "string option"
  b_price :: "rat option"
  b_originalPrice :: "rat option"
  b_deliveryDate :: "string option"

text \<open>Validators of \<^verbatim>\<open>ProductSchema\<close>: name of 3..150 characters, price at least 0,
  description of at most 2000 characters.\<close>

definition validProduct :: "product \<Rightarrow> bool" where
  "validProduct p =
     (3 \<le> length (p_name p) \<and> length (p_name p) \<le> 150 \<and> 0 \<le> p_price p \<and>
      (case description p of None \<Rightarrow> True | Some d \<Rightarrow> length d \<le> 2000))"

text \<open>
  \<^verbatim>\<open>new Product({...})\<close> followed by validation: the setters trim \<^verbatim>\<open>name\<close> and
  \<^verbatim>\<open>description\<close>, \<^verbatim>\<open>rating\<close> and \<^verbatim>\<open>reviewsCount\<close> default to 0, \<^verbatim>\<open>name\<close> and
  \<^verbatim>\<open>price\<close> are required. \<open>None\<close> is the validation error.
\<close>

definition mkProduct :: "'a product_body_scheme \<Rightarrow> objectId \<Rightarrow> int \<Rightarrow> date option \<Rightarrow> product option" where
  "mkProduct b i lid d =
     (case (b_name b, b_price b) of
        (Some n, Some pr) \<Rightarrow>
          (let p = \<lparr>p_oid = i, legacyId = lid, p_name = trim n, dateAdded = d,
                    category = b_category b, images = b_images b,
                    description = map_option trim (b_description b),
                    p_rating = (case b_rating b of None \<Rightarrow> 0 | Some r \<Rightarrow> r),
                    reviewsCount = (case b_reviewsCount b of None \<Rightarrow> 0 | Some n \<Rightarrow> n),
                    sellerTag = b_sellerTag b, p_price = pr,
                    originalPrice = b_originalPrice b, deliveryDate = b_deliveryDate b\<rparr>
           in if validProduct p then Some p else None)
      | _ \<Rightarrow> None)"

text \<open>
  Inserting a new Product document: the unique index on \<^verbatim>\<open>legacyId\<close> rejects a
  duplicate; an inserted document uses up its \<^verbatim>\<open>_id\<close>.
\<close>

definition insert_product :: "product \<Rightarrow> store \<Rightarrow> store option" where
  "insert_product p s =
     (if list_ex (\<lambda>q. legacyId q = legacyId p) (products s) then None
      else Some (s\<lparr>products := products s @ [p], nextId := Suc (nextId s)\<rparr>))"

text \<open>
  A request may meet a store that fails: \<open>outage = Some k\<close> makes the store call
  number \<open>k\<close> of the handler (counted from 0 in the order of the source) throw;
  \<open>None\<close> is a store that answers every call.
\<close>

type_synonym outage = "nat option"

definition throws :: "outage \<Rightarrow> nat \<Rightarrow> bool" where
  "throws outage k = (outage = Some k)"

text \<open>
  The update that \<^verbatim>\<open>product.save()\<close> sends for a loaded document whose \<^verbatim>\<open>rating\<close> and
  \<^verbatim>\<open>reviewsCount\<close> were assigned: the two paths are set on the document with that
  \<^verbatim>\<open>_id\<close>.
\<close>

definition set_rating :: "objectId \<Rightarrow> rat \<Rightarrow> int \<Rightarrow> store \<Rightarrow> store" where
  "set_rating i r n s =
     s\<lparr>products := map (\<lambda>q. if p_oid q = i then q\<lparr>p_rating := r, reviewsCount := n\<rparr> else q)
                       (products s)\<rparr>"

text \<open>
  \<^verbatim>\<open>product.save()\<close> on the loaded document after the assignment. The document is
  validated again before the update is sent; \<open>None\<close> is the exception of a failed
  validation or of a failing store, and then nothing is written.
\<close>

definition save_rating :: "bool \<Rightarrow> product \<Rightarrow> store \<Rightarrow> store option" where
  "save_rating storeThrows product s =
     (if storeThrows \<or> \<not> validProduct product then None
      else Some (set_rating (p_oid product) (p_rating product) (reviewsCount product) s))"

section \<open>Rating aggregation (server.js 300-309)\<close>

record stats =
  avgRating :: "rat option"
  st_count :: nat

text \<open>\<^verbatim>\<open>{ $match: { productId: product._id } }\<close>\<close>

definition match_productId :: "comment list \<Rightarrow> objectId \<Rightarrow> comment list" where
  "match_productId cs pid = filter (\<lambda>c. productId c = pid) cs"

text \<open>
  \<^verbatim>\<open>{ $avg: '$rating' }\<close>: the mean of the ratings that are numbers; documents without
  a rating are skipped, and the result is null when none has one.
\<close>

definition avg :: "comment list \<Rightarrow> rat option" where
  "avg cs =
     (let rs = List.map_filter c_rating cs
      in if rs = [] then None else Some (sum_list rs / of_nat (length rs)))"

text \<open>
  \<^verbatim>\<open>{ $group: { _id: '$productId', avgRating: { $avg: '$rating' }, count: { $sum: 1 } } }\<close>
  after the match: one group when a document matched, none otherwise.
\<close>

definition aggregate :: "comment list \<Rightarrow> objectId \<Rightarrow> stats list" where
  "aggregate cs pid =
     (let ms = match_productId cs pid
      in if ms = [] then [] else [\<lparr>avgRating = avg ms, st_count = length ms\<rparr>])"

text \<open>\<^verbatim>\<open>Math.round\<close>: the nearest integer, a half rounded up; \<^verbatim>\<open>Math.round(null)\<close> is 0.\<close>

definition Math_round :: "rat option \<Rightarrow> int" where
  "Math_round x = (case x of None \<Rightarrow> 0 | Some q \<Rightarrow> \<lfloor>q + 1 / 2\<rfloor>)"

text \<open>
  \<^verbatim>\<open>parseInt\<close> of a number: the digits before the decimal point. The review endpoint
  applies it to ratings between 1 and 5 only.
\<close>

definition parseInt :: "rat \<Rightarrow> int" where
  "parseInt q = (if q < 0 then - \<lfloor>- q\<rfloor> else \<lfloor>q\<rfloor>)"

section \<open>Review intake: POST /api/products/:id/reviews (server.js 261-321)\<close>

datatype 'a response = Status201 'a | Status400 | Status404 | Status500

record review_body =
  rb_user :: "string option"
  rb_rating :: "rat option"
  rb_comment :: "string option"

record review_result =
  newComment :: comment
  newRating :: rat
  newReviewsCount :: int

text \<open>
  Lines 300-316, entered after the new Comment was saved: the aggregation (store call
  3), the assignment of the new pair to the loaded product and its save (store call 4)
  when the aggregation returns a group, and the response, which reads the loaded
  product. An exception here answers 500 and leaves the store as it is at that moment,
  the Comment included.
\<close>

definition refresh_rating :: "outage \<Rightarrow> product \<Rightarrow> comment \<Rightarrow> store \<Rightarrow> review_result response \<times> store" where
  "refresh_rating outage product c s =
     (if throws outage 3 then (Status500, s)
      else (case aggregate (comments s) (p_oid product) of
              [] \<Rightarrow> (Status201 \<lparr>newComment = c, newRating = p_rating product,
                                 newReviewsCount = reviewsCount product\<rparr>, s)
            | st # _ \<Rightarrow>
                (let product' = product\<lparr>p_rating := of_int (Math_round (avgRating st)),
                                         reviewsCount := int (st_count st)\<rparr>
                 in case save_rating (throws outage 4) product' s of
                      None \<Rightarrow> (Status500, s)
                    | Some s1 \<Rightarrow>
                        (Status201 \<lparr>newComment = c, newRating = p_rating product',
                                    newReviewsCount = reviewsCount product'\<rparr>, s1))))"

text \<open>
  The handler. \<open>None\<close> in the body is a missing field; \<^verbatim>\<open>!user\<close> holds of a missing
  or empty string, \<^verbatim>\<open>!rating\<close> of a missing rating or 0. An exception inside the
  \<^verbatim>\<open>try\<close> block answers 500: of \<^verbatim>\<open>Product.findOne\<close> (store call 0), of
  \<^verbatim>\<open>Order.find\<close> (store call 1), of \<^verbatim>\<open>newComment.save()\<close> (store call 2, or a failed
  validation of the Comment), and of the two calls that follow the insert.
\<close>

definition submitReview :: "int \<Rightarrow> review_body \<Rightarrow> date \<Rightarrow> outage \<Rightarrow> store \<Rightarrow> review_result response \<times> store" where
  "submitReview lid b now outage s =
     (case (rb_user b, rb_rating b, rb_comment b) of
        (Some user, Some rating, Some msg) \<Rightarrow>
          if user = [] \<or> rating = 0 \<or> msg = [] \<or> rating < 1 \<or> rating > 5 then (Status400, s)
          else if throws outage 0 then (Status500, s)
          else (case findOne_legacyId (products s) lid of
                  None \<Rightarrow> (Status404, s)
                | Some product \<Rightarrow>
                    if throws outage 1 then (Status500, s)
                    else (let isVerified = isVerifiedPurchase s lid user;
                              c = mkComment (p_oid product) user (Some (of_int (parseInt rating)))
                                    msg now isVerified
                          in if throws outage 2 then (Status500, s)
                             else (case save_comment c s of
                                     None \<Rightarrow> (Status500, s)
                                   | Some s1 \<Rightarrow> refresh_rating outage product c s1)))
      | _ \<Rightarrow> (Status400, s))"

section \<open>Plain comments: POST /product/:id/comment (server.js 452-483)\<close>

record comment_body =
  cb_username :: "string option"
  cb_comment :: "string option"
  cb_rating :: "rat option"

text \<open>
  The path parameter is \<open>None\<close> when it is not a well-formed \<^verbatim>\<open>ObjectId\<close>. Only
  \<^verbatim>\<open>username\<close> and \<^verbatim>\<open>comment\<close> are read from the body; \<^verbatim>\<open>createdAt\<close> and
  \<^verbatim>\<open>verifiedPurchase\<close> take their schema defaults.
\<close>

definition postComment :: "objectId option \<Rightarrow> comment_body \<Rightarrow> date \<Rightarrow> store \<Rightarrow> comment response \<times> store" where
  "postComment idParam b now s =
     (case (cb_username b, cb_comment b) of
        (Some user, Some msg) \<Rightarrow>
          if user = [] \<or> msg = [] then (Status400, s)
          else (case idParam of
                  None \<Rightarrow> (Status400, s)
                | Some pid \<Rightarrow>
                    (case findById (products s) pid of
                       None \<Rightarrow> (Status404, s)
                     | Some productExists \<Rightarrow>
                         (let c = mkComment pid user None msg now False
                          in case save_comment c s of
                               None \<Rightarrow> (Status500, s)
                             | Some s1 \<Rightarrow> (Status201 c, s1))))
      | _ \<Rightarrow> (Status400, s))"

section \<open>Admin product creation: POST /api/products (server.js 176-193)\<close>

text \<open>The handler behind \<^verbatim>\<open>adminAuth\<close>; a failed save answers 400.\<close>

definition createProduct :: "product_body \<Rightarrow> date \<Rightarrow> store \<Rightarrow> product response \<times> store" where
  "createProduct body now s =
     (let newLegacyId = (case findOne_sort_desc (products s) of
                           Some lastProduct \<Rightarrow> legacyId lastProduct + 1
                         | None \<Rightarrow> 1)
      in case mkProduct body (nextId s) newLegacyId (Some now) of
           None \<Rightarrow> (Status400, s)
         | Some p \<Rightarrow>
             (case insert_product p s of
                None \<Rightarrow> (Status400, s)
              | Some s1 \<Rightarrow> (Status201 p, s1)))"

text \<open>Creations one after the other, each on the store the previous one left.\<close>

fun createProducts :: "product_body list \<Rightarrow> date \<Rightarrow> store \<Rightarrow> store" where
  "createProducts [] now s = s"
| "createProducts (b # bs) now s = createProducts bs now (snd (createProduct b now s))"

text \<open>The products carry the legacy ids 1, 2, ..., in the order of the collection.\<close>

definition numbered :: "store \<Rightarrow> bool" where
  "numbered s = (map legacyId (products s) = [1..int (length (products s))])"

section \<open>Migration and seeding at startup (server.js 486-591)\<close>

record legacy_review =
  r_user :: string
  r_rating :: rat
  r_comment :: string
  r_createdAt :: "date option"

record legacy_product = product_body +
  l_id :: int
  l_dateAdded :: "date option"
  l_reviews :: "legacy_review list"

datatype outcome = Completed | Caught

text \<open>Lines 519-536: one embedded review becomes one Comment document.\<close>

definition review_to_comment :: "order list \<Rightarrow> objectId \<Rightarrow> date \<Rightarrow> legacy_review \<Rightarrow> comment" where
  "review_to_comment ordersWithProduct pid now review =
     mkComment pid (r_user review) (Some (r_rating review)) (r_comment review)
       (case r_createdAt review of Some d \<Rightarrow> d | None \<Rightarrow> now)
       (isVerified ordersWithProduct (r_user review))"

text \<open>
  The loop of lines 493-539. An exception leaves the loop; what was written before
  it stays written.
\<close>

fun migrateProducts :: "legacy_product list \<Rightarrow> date \<Rightarrow> store \<Rightarrow> outcome \<times> store" where
  "migrateProducts [] now s = (Completed, s)"
| "migrateProducts (p # ps) now s =
     (case findOne_legacyId (products s) (l_id p) of
        Some existingProduct \<Rightarrow> migrateProducts ps now s
      | None \<Rightarrow>
          (case mkProduct p (nextId s) (l_id p)
                  (Some (case l_dateAdded p of Some d \<Rightarrow> d | None \<Rightarrow> now)) of
             None \<Rightarrow> (Caught, s)
           | Some newProduct \<Rightarrow>
               (case insert_product newProduct s of
                  None \<Rightarrow> (Caught, s)
                | Some s1 \<Rightarrow>
                    if length (l_reviews p) > 0
                    then (let ordersWithProduct = find_orders_by_item (orders s1) (l_id p);
                              commentsToCreate =
                                map (review_to_comment ordersWithProduct (p_oid newProduct) now)
                                  (l_reviews p)
                          in case insertMany commentsToCreate s1 of
                               None \<Rightarrow> (Caught, s1)
                             | Some s2 \<Rightarrow> migrateProducts ps now s2)
                    else migrateProducts ps now s1)))"

text \<open>Step 1 of \<^verbatim>\<open>migrateAndSeed\<close> with its gate (lines 489-545).\<close>

definition migrate :: "legacy_product list \<Rightarrow> date \<Rightarrow> store \<Rightarrow> outcome \<times> store" where
  "migrate productsFromJson now s =
     (if length (products s) < length productsFromJson
      then migrateProducts productsFromJson now s
      else (Completed, s))"

definition seed_radha :: "objectId \<Rightarrow> date \<Rightarrow> comment" where
  "seed_radha pid now =
     mkComment pid ''Radha'' (Some 5)
       ''This is the best ghee I have ever tasted! So pure and aromatic.'' now False"

definition seed_krishna :: "objectId \<Rightarrow> date \<Rightarrow> comment" where
  "seed_krishna pid now =
     mkComment pid ''Krishna'' (Some 4)
       ''Excellent quality and fast delivery. Highly recommended.'' now False"

text \<open>Step 2 of \<^verbatim>\<open>migrateAndSeed\<close> (lines 548-559).\<close>

definition seedComments :: "date \<Rightarrow> store \<Rightarrow> outcome \<times> store" where
  "seedComments now s =
     (if length (comments s) = 0
      then (case findOne_sort_asc (products s) of
              Some productToCommentOn \<Rightarrow>
                (case insertMany [seed_radha (p_oid productToCommentOn) now,
                                  seed_krishna (p_oid productToCommentOn) now] s of
                   None \<Rightarrow> (Caught, s)
                 | Some s1 \<Rightarrow> (Completed, s1))
            | None \<Rightarrow> (Completed, s))
      else (Completed, s))"

text \<open>The whole function: an exception of step 1 is caught and logged, and step 2 is not reached.\<close>

definition migrateAndSeed :: "legacy_product list \<Rightarrow> date \<Rightarrow> store \<Rightarrow> outcome \<times> store" where
  "migrateAndSeed productsFromJson now s =
     (case migrate productsFromJson now s of
        (Caught, s1) \<Rightarrow> (Caught, s1)
      | (Completed, s1) \<Rightarrow> seedComments now s1)"

datatype server = Exited | Listening store

text \<open>
  \<^verbatim>\<open>startServer\<close>: \<open>file = None\<close> is a legacy file that cannot be read or parsed, which
  leaves \<^verbatim>\<open>productsFromJson\<close> at its initial \<^verbatim>\<open>[]\<close>; \<open>connectOk = False\<close> is a failed
  \<^verbatim>\<open>mongoose.connect\<close>, which ends the process.
\<close>

definition startServer :: "legacy_product list option \<Rightarrow> bool \<Rightarrow> date \<Rightarrow> store \<Rightarrow> server" where
  "startServer file connectOk now s =
     (let productsFromJson = (case file of Some l \<Rightarrow> l | None \<Rightarrow> [])
      in if connectOk then Listening (snd (migrateAndSeed productsFromJson now s)) else Exited)"

section \<open>Consistency of the cached rating\<close>

text \<open>
  A product's cached pair agrees with the aggregation over the comments: where the
  aggregation returns a group, the two fields are what lines 306-307 would assign.
\<close>

definition consistent_product :: "comment list \<Rightarrow> product \<Rightarrow> bool" where
  "consistent_product cs p =
     (case aggregate cs (p_oid p) of
        [] \<Rightarrow> True
      | st # _ \<Rightarrow> p_rating p = of_int (Math_round (avgRating st)) \<and>
                  reviewsCount p = int (st_count st))"

definition cached_consistent :: "store \<Rightarrow> bool" where
  "cached_consistent s = list_all (consistent_product (comments s)) (products s)"

text \<open>Every legacy record has a Product with its legacy id.\<close>

definition all_migrated :: "legacy_product list \<Rightarrow> store \<Rightarrow> bool" where
  "all_migrated productsFromJson s =
     list_all (\<lambda>p. findOne_legacyId (products s) (l_id p) \<noteq> None) productsFromJson"

section \<open>Sample data\<close>

definition krishna_das :: customer where
  "krishna_das =
     \<lparr>firstname = ''Krishna'', lastname = ''Das'', email = ''krishna@example.org'',
      phone = ''9000000000'', address1 = ''1 Temple Road'', address2 = None,
      city = ''Mathura'', u_state = ''UP'', u_zip = ''281001''\<rparr>"

definition ghee_order :: order where
  "ghee_order =
     \<lparr>orderId = ''ORD-3'', o_date = 3, o_user = krishna_das,
      o_total = 650,
      items = [\<lparr>i_id = 7, i_name = ''Cow Ghee'', quantity = 1, i_price = 650\<rparr>]\<rparr>"

definition ghee_body :: product_body where
  "ghee_body =
     \<lparr>b_name = Some ''Cow Ghee'', b_category = [''dairy''], b_images = [],
      b_description = None, b_rating = None, b_reviewsCount = None, b_sellerTag = None,
      b_price = Some 650, b_originalPrice = None, b_deliveryDate = None\<rparr>"

definition ghee :: product where
  "ghee =
     \<lparr>p_oid = 0, legacyId = 7, p_name = ''Cow Ghee'', dateAdded = Some 5,
      category = [''dairy''], images = [], description = None, p_rating = 0,
      reviewsCount = 0, sellerTag = None, p_price = 650, originalPrice = None,
      deliveryDate = None\<rparr>"

definition legacy_ghee :: legacy_product where
  "legacy_ghee =
     \<lparr>b_name = Some ''Cow Ghee'', b_category = [''dairy''], b_images = [],
      b_description = None, b_rating = None, b_reviewsCount = None, b_sellerTag = None,
      b_price = Some 650, b_originalPrice = None, b_deliveryDate = None,
      l_id = 7, l_dateAdded = Some 5, l_reviews = []\<rparr>"

definition empty_store :: store where
  "empty_store = \<lparr>products = [], comments = [], orders = [], nextId = 0\<rparr>"

text \<open>One product, one order for it, no comment.\<close>

definition ghee_store :: store where
  "ghee_store = \<lparr>products = [ghee], comments = [], orders = [ghee_order], nextId = 1\<rparr>"

definition plain_body :: comment_body where
  "plain_body = \<lparr>cb_username = Some ''Gopal'', cb_comment = Some ''Is it A2 milk?'',
                  cb_rating = Some 3\<rparr>"

text \<open>The store after one plain comment on the product.\<close>

definition commented_store :: store where
  "commented_store = snd (postComment (Some 0) plain_body 10 ghee_store)"

definition review5 :: review_body where
  "review5 = \<lparr>rb_user = Some ''Krishna'', rb_rating = Some 5, rb_comment = Some ''Pure.''\<rparr>"

definition review_half :: review_body where
  "review_half = \<lparr>rb_user = Some ''Radha'', rb_rating = Some (9 / 2),
                   rb_comment = Some ''Aromatic.''\<rparr>"

definition review0 :: review_body where
  "review0 = \<lparr>rb_user = Some ''Radha'', rb_rating = Some 0, rb_comment = Some ''Aromatic.''\<rparr>"

text \<open>The review \<open>review5\<close> submitted at time 20 to \<open>commented_store\<close>: its Comment,
  the response, and the store it leaves.\<close>

definition krishna_review :: comment where
  "krishna_review =
     \<lparr>productId = 0, username = ''Krishna'', c_comment = ''Pure.'', c_rating = Some 5,
      createdAt = 20, verifiedPurchase = True\<rparr>"

definition review5_result :: review_result where
  "review5_result = \<lparr>newComment = krishna_review, newRating = 5, newReviewsCount = 2\<rparr>"

definition reviewed_store :: store where
  "reviewed_store =
     commented_store\<lparr>products := [ghee\<lparr>p_rating := 5, reviewsCount := 2\<rparr>],
                      comments := comments commented_store @ [krishna_review]\<rparr>"

text \<open>The store with one product created by the admin endpoint and nothing else.\<close>

definition created_store :: store where
  "created_store = snd (createProduct ghee_body 5 empty_store)"

text \<open>A legacy record whose embedded review carries a rating outside 1..5.\<close>

definition legacy_bad :: legacy_product where
  "legacy_bad =
     legacy_ghee\<lparr>l_reviews := [\<lparr>r_user = ''Radha'', r_rating = 7, r_comment = ''Divine'',
                                   r_createdAt = None\<rparr>]\<rparr>"

text \<open>The store after the legacy record \<open>legacy_ghee\<close> was migrated into the empty store
  and the sample comments were seeded, at time 20.\<close>

definition migrated_store :: store where
  "migrated_store =
     \<lparr>products = [ghee], comments = [seed_radha 0 20, seed_krishna 0 20], orders = [],
      nextId = 1\<rparr>"

text \<open>The store \<open>ghee_store\<close> after the Comment of \<open>review5\<close> was inserted and nothing else.\<close>

definition stale_store :: store where
  "stale_store = ghee_store\<lparr>comments := [krishna_review]\<rparr>"

text \<open>A store whose only product has a name of two characters, below the schema's minimum.\<close>

definition short_name_store :: store where
  "short_name_store = ghee_store\<lparr>products := [ghee\<lparr>p_name := ''ab''\<rparr>]\<rparr>"

text \<open>A comment on product \<open>pid\<close> with the given rating.\<close>

definition rated :: "objectId \<Rightarrow> rat \<Rightarrow> comment" where
  "rated pid r = mkComment pid ''Radha'' (Some r) ''ok'' 0 False"

section \<open>Facts about the string operations\<close>

lemma startsWith_iff: "startsWith s t \<longleftrightarrow> (\<exists>v. s = t @ v)"
  by (induction s t rule: startsWith.induct) auto

lemma js_includes_iff: "js_includes s t \<longleftrightarrow> (\<exists>u v. s = u @ t @ v)"
proof (induction s)
  case Nil
  then show ?case by auto
next
  case (Cons a s)
  show ?case
  proof
    assume "js_includes (a # s) t"
    then consider "startsWith (a # s) t" | "js_includes s t" by auto
    then show "\<exists>u v. a # s = u @ t @ v"
    proof cases
      case 1
      then obtain v where "a # s = t @ v" by (auto simp: startsWith_iff)
      then have "a # s = [] @ t @ v" by simp
      then show ?thesis by blast
    next
      case 2
      then obtain u v where "s = u @ t @ v" using Cons.IH by auto
      then have "a # s = (a # u) @ t @ v" by simp
      then show ?thesis by blast
    qed
  next
    assume "\<exists>u v. a # s = u @ t @ v"
    then obtain u v where uv: "a # s = u @ t @ v" by auto
    show "js_includes (a # s) t"
    proof (cases u)
      case Nil
      then have "startsWith (a # s) t" using uv by (simp add: startsWith_iff)
      then show ?thesis by simp
    next
      case (Cons b u')
      then have "s = u' @ t @ v" using uv by simp
      then show ?thesis using Cons.IH by auto
    qed
  qed
qed

lemma js_includes_empty: "js_includes s []"
  by (induction s) auto

lemma lowerChar_whitespace: "isWhiteSpace c \<Longrightarrow> lowerChar c = c"
  by (auto simp: isWhiteSpace_def lowerChar_def Let_def)

lemma trim_whitespace:
  assumes "\<forall>c\<in>set r. isWhiteSpace c"
  shows "trim (toLowerCase r) = []"
proof -
  have low: "toLowerCase r = r"
    using assms by (simp add: toLowerCase_def lowerChar_whitespace map_idI)
  have "dropWhile isWhiteSpace r = []"
    using assms by simp
  then have "trim r = []"
    unfolding trim_def by (simp only: rev.simps dropWhile.simps)
  then show ?thesis by (simp only: low)
qed

section \<open>Purchase verification\<close>

lemma find_orders_by_item_set:
  "set (find_orders_by_item os lid) = {order \<in> set os. \<exists>it \<in> set (items order). i_id it = lid}"
  by (auto simp: find_orders_by_item_def list_ex_iff)

lemma isVerified_iff:
  "isVerified ows user \<longleftrightarrow>
     (\<exists>order \<in> set ows. js_includes (customerName order) (trim (toLowerCase user)))"
  by (auto simp: isVerified_def Let_def list_ex_iff)

lemma toLowerCase_capital:
  assumes "65 \<le> (of_char c :: nat)" "(of_char c :: nat) \<le> 90"
  shows "toLowerCase [c] = [char_of ((of_char c :: nat) + 32)]"
  using assms by (simp add: toLowerCase_def lowerChar_def Let_def)

text \<open>
  Claim C2. The purchase check for legacy id \<open>L\<close> and reviewer name \<open>R\<close> is true exactly
  when some order has a line item with id \<open>L\<close> and its customer name (first name, one
  space, last name, lower-cased and trimmed) contains the lower-cased, trimmed \<open>R\<close> as a
  substring. It is false when no order contains \<open>L\<close>, and true for an empty or
  all-whitespace \<open>R\<close> as soon as one order contains \<open>L\<close>. Lower-casing maps each
  capital letter A..Z to its small letter, 32 code points up, so the check does not
  distinguish the two.
\<close>

theorem purchase_check:
  "(isVerifiedPurchase s L R \<longleftrightarrow>
      (\<exists>order \<in> set (orders s).
         (\<exists>it \<in> set (items order). i_id it = L) \<and>
         (\<exists>u v. trim (toLowerCase (firstname (o_user order) @ '' '' @ lastname (o_user order)))
                  = u @ trim (toLowerCase R) @ v)))
   \<and> ((\<forall>order \<in> set (orders s). \<forall>it \<in> set (items order). i_id it \<noteq> L)
        \<longrightarrow> \<not> isVerifiedPurchase s L R)
   \<and> ((\<forall>c \<in> set R. isWhiteSpace c) \<and>
        (\<exists>order \<in> set (orders s). \<exists>it \<in> set (items order). i_id it = L)
        \<longrightarrow> isVerifiedPurchase s L R)
   \<and> (65 \<le> (of_char c :: nat) \<and> (of_char c :: nat) \<le> 90
        \<longrightarrow> toLowerCase [c] = [char_of ((of_char c :: nat) + 32)])"
proof -
  have main: "isVerifiedPurchase s L R \<longleftrightarrow>
      (\<exists>order \<in> set (orders s).
         (\<exists>it \<in> set (items order). i_id it = L) \<and>
         (\<exists>u v. trim (toLowerCase (firstname (o_user order) @ '' '' @ lastname (o_user order)))
                  = u @ trim (toLowerCase R) @ v))"
    unfolding isVerifiedPurchase_def isVerified_iff find_orders_by_item_set
    by (auto simp: js_includes_iff customerName_def)
  have none: "\<not> isVerifiedPurchase s L R"
    if "\<forall>order \<in> set (orders s). \<forall>it \<in> set (items order). i_id it \<noteq> L"
    using that unfolding main by blast
  have blank: "isVerifiedPurchase s L R"
    if ws: "\<forall>c \<in> set R. isWhiteSpace c"
      and ex: "\<exists>order \<in> set (orders s). \<exists>it \<in> set (items order). i_id it = L"
  proof -
    have e: "trim (toLowerCase R) = []" using ws by (rule trim_whitespace)
    have triv: "\<exists>u v. x = u @ [] @ v" for x :: string
      by (metis append_Nil)
    show ?thesis unfolding main e using ex triv by blast
  qed
  have capital: "toLowerCase [c] = [char_of ((of_char c :: nat) + 32)]"
    if "65 \<le> (of_char c :: nat) \<and> (of_char c :: nat) \<le> 90"
    using that by (simp add: toLowerCase_capital)
  from main none blank capital show ?thesis by blast
qed

text \<open>
  On the store with the one order of Krishna Das for product 7: a first name, a name
  written in capitals, and the full name in mixed case between blanks are verified; a
  longer name, and any name for a product nobody ordered, are not; a blank name is.
\<close>

theorem purchase_check_witness:
  "isVerifiedPurchase ghee_store 7 ''Krishna''
   \<and> isVerifiedPurchase ghee_store 7 ''KRISHNA''
   \<and> isVerifiedPurchase ghee_store 7 ''  krishna DAS  ''
   \<and> \<not> isVerifiedPurchase ghee_store 7 ''Krishna Das Extra''
   \<and> \<not> isVerifiedPurchase ghee_store 8 ''Krishna''
   \<and> isVerifiedPurchase ghee_store 7 ''  ''
   \<and> toLowerCase ''K'' = ''k''
   \<and> trim (toLowerCase ''KRISHNA'') = ''krishna''
   \<and> customerName ghee_order = ''krishna das''"
proof -
  have absent: "\<forall>order \<in> set (orders ghee_store). \<forall>it \<in> set (items order). i_id it \<noteq> 8"
    by code_simp
  have blank: "\<forall>c \<in> set ''  ''. isWhiteSpace c"
    by code_simp
  have present: "\<exists>order \<in> set (orders ghee_store). \<exists>it \<in> set (items order). i_id it = 7"
    by code_simp
  have member: "ghee_order \<in> set (orders ghee_store)"
    by (simp add: ghee_store_def)
  have item: "\<exists>it \<in> set (items ghee_order). i_id it = 7"
    by code_simp
  have low: "trim (toLowerCase ''KRISHNA'') = ''krishna''"
    by code_simp
  have name: "customerName ghee_order = ''krishna das''"
    by code_simp
  have capitals_in: "trim (toLowerCase (firstname (o_user ghee_order) @ '' '' @
                                     lastname (o_user ghee_order)))
                       = [] @ trim (toLowerCase ''KRISHNA'') @ '' das''"
    by code_simp
  have mixed_in: "trim (toLowerCase (firstname (o_user ghee_order) @ '' '' @
                                  lastname (o_user ghee_order)))
                    = [] @ trim (toLowerCase ''  krishna DAS  '') @ []"
    by code_simp
  have "\<not> isVerifiedPurchase ghee_store 8 ''Krishna''"
    using purchase_check [of ghee_store 8 "''Krishna''"] absent by blast
  moreover have "isVerifiedPurchase ghee_store 7 ''  ''"
    using purchase_check [of ghee_store 7 "''  ''"] blank present by blast
  moreover have "isVerifiedPurchase ghee_store 7 ''KRISHNA''"
    using purchase_check [of ghee_store 7 "''KRISHNA''"] member item capitals_in by blast
  moreover have "isVerifiedPurchase ghee_store 7 ''  krishna DAS  ''"
    using purchase_check [of ghee_store 7 "''  krishna DAS  ''"] member item mixed_in by blast
  moreover have "toLowerCase ''K'' = ''k''"
  proof -
    have "65 \<le> (of_char CHR ''K'' :: nat) \<and> (of_char CHR ''K'' :: nat) \<le> 90" by simp
    with purchase_check [of ghee_store 7 "''K''" "CHR ''K''"]
    have "toLowerCase ''K'' = [char_of ((of_char CHR ''K'' :: nat) + 32)]" by blast
    also have "\<dots> = ''k''" by code_simp
    finally show ?thesis .
  qed
  moreover have "isVerifiedPurchase ghee_store 7 ''Krishna''" by code_simp
  moreover have "\<not> isVerifiedPurchase ghee_store 7 ''Krishna Das Extra''" by code_simp
  ultimately show ?thesis using low name by blast
qed

section \<open>Seeding\<close>

lemma foldl_min_legacyId:
  "foldl (\<lambda>best q. if legacyId q < legacyId best then q else best) p qs \<in> set (p # qs)
   \<and> (\<forall>q \<in> set (p # qs).
        legacyId (foldl (\<lambda>best q. if legacyId q < legacyId best then q else best) p qs)
          \<le> legacyId q)"
proof (induction qs arbitrary: p)
  case Nil
  show ?case by simp
next
  case (Cons a qs)
  show ?case
  proof (cases "legacyId a < legacyId p")
    case True
    with Cons.IH [of a] show ?thesis by force
  next
    case False
    with Cons.IH [of p] show ?thesis by force
  qed
qed

lemma findOne_sort_asc_None: "findOne_sort_asc ps = None \<longleftrightarrow> ps = []"
  by (simp add: findOne_sort_asc_def split: list.splits)

lemma findOne_sort_asc_Some:
  assumes "findOne_sort_asc ps = Some p"
  shows "p \<in> set ps \<and> (\<forall>q \<in> set ps. legacyId p \<le> legacyId q)"
proof (cases ps)
  case Nil
  with assms show ?thesis by (simp add: findOne_sort_asc_def)
next
  case (Cons a qs)
  with assms have "p = foldl (\<lambda>best q. if legacyId q < legacyId best then q else best) a qs"
    by (simp add: findOne_sort_asc_def)
  with foldl_min_legacyId [of a qs] Cons show ?thesis by simp
qed

lemma trim_Radha: "trim ''Radha'' = ''Radha''"
  by code_simp

lemma trim_Krishna: "trim ''Krishna'' = ''Krishna''"
  by code_simp

lemma trim_radha_text:
  "trim ''This is the best ghee I have ever tasted! So pure and aromatic.''
     = ''This is the best ghee I have ever tasted! So pure and aromatic.''"
  by code_simp

lemma trim_krishna_text:
  "trim ''Excellent quality and fast delivery. Highly recommended.''
     = ''Excellent quality and fast delivery. Highly recommended.''"
  by code_simp

lemma seed_radha_eq:
  "seed_radha pid now =
     \<lparr>productId = pid, username = ''Radha'',
      c_comment = ''This is the best ghee I have ever tasted! So pure and aromatic.'',
      c_rating = Some 5, createdAt = now, verifiedPurchase = False\<rparr>"
  unfolding seed_radha_def mkComment_def trim_Radha trim_radha_text by (rule refl)

lemma seed_krishna_eq:
  "seed_krishna pid now =
     \<lparr>productId = pid, username = ''Krishna'',
      c_comment = ''Excellent quality and fast delivery. Highly recommended.'',
      c_rating = Some 4, createdAt = now, verifiedPurchase = False\<rparr>"
  unfolding seed_krishna_def mkComment_def trim_Krishna trim_krishna_text by (rule refl)

lemma seeds_valid: "list_all validComment [seed_radha pid now, seed_krishna pid now]"
  unfolding seed_radha_eq seed_krishna_eq by (simp add: validComment_def)

lemma seedComments_cases:
  "seedComments now s =
     (if comments s = [] then
        (case findOne_sort_asc (products s) of
           Some p \<Rightarrow> (Completed, s\<lparr>comments := [seed_radha (p_oid p) now, seed_krishna (p_oid p) now]\<rparr>)
         | None \<Rightarrow> (Completed, s))
      else (Completed, s))"
  using seeds_valid by (simp add: seedComments_def insertMany_def split: option.splits)

text \<open>
  Claim C5. The seed step writes exactly when the Comments collection is empty and a
  Product exists: then it inserts the two fixed sample comments, with ratings 5 and 4,
  both referencing a Product whose legacy id is the minimum. With a non-empty Comments
  collection, or without any Product, it writes nothing.
\<close>

theorem seedComments_writes:
  "(comments s = [] \<and> products s \<noteq> [] \<longrightarrow>
      (\<exists>p \<in> set (products s).
         (\<forall>q \<in> set (products s). legacyId p \<le> legacyId q) \<and>
         seedComments now s =
           (Completed,
            s\<lparr>comments :=
                [\<lparr>productId = p_oid p, username = ''Radha'',
                  c_comment = ''This is the best ghee I have ever tasted! So pure and aromatic.'',
                  c_rating = Some 5, createdAt = now, verifiedPurchase = False\<rparr>,
                 \<lparr>productId = p_oid p, username = ''Krishna'',
                  c_comment = ''Excellent quality and fast delivery. Highly recommended.'',
                  c_rating = Some 4, createdAt = now, verifiedPurchase = False\<rparr>]\<rparr>)))
   \<and> (comments s \<noteq> [] \<or> products s = [] \<longrightarrow> seedComments now s = (Completed, s))"
proof (intro conjI impI)
  assume a: "comments s = [] \<and> products s \<noteq> []"
  then obtain p where p: "findOne_sort_asc (products s) = Some p"
    using findOne_sort_asc_None [of "products s"] by (cases "findOne_sort_asc (products s)") auto
  have "seedComments now s =
      (Completed, s\<lparr>comments := [seed_radha (p_oid p) now, seed_krishna (p_oid p) now]\<rparr>)"
    using a p by (simp add: seedComments_cases)
  with findOne_sort_asc_Some [OF p] show "\<exists>p \<in> set (products s).
         (\<forall>q \<in> set (products s). legacyId p \<le> legacyId q) \<and>
         seedComments now s =
           (Completed,
            s\<lparr>comments :=
                [\<lparr>productId = p_oid p, username = ''Radha'',
                  c_comment = ''This is the best ghee I have ever tasted! So pure and aromatic.'',
                  c_rating = Some 5, createdAt = now, verifiedPurchase = False\<rparr>,
                 \<lparr>productId = p_oid p, username = ''Krishna'',
                  c_comment = ''Excellent quality and fast delivery. Highly recommended.'',
                  c_rating = Some 4, createdAt = now, verifiedPurchase = False\<rparr>]\<rparr>)"
    unfolding seed_radha_eq seed_krishna_eq by blast
next
  assume "comments s \<noteq> [] \<or> products s = []"
  then show "seedComments now s = (Completed, s)"
    by (auto simp: seedComments_cases findOne_sort_asc_def)
qed

theorem seedComments_writes_witness:
  "seedComments 20 ghee_store =
     (Completed,
      ghee_store\<lparr>comments :=
        [\<lparr>productId = 0, username = ''Radha'',
          c_comment = ''This is the best ghee I have ever tasted! So pure and aromatic.'',
          c_rating = Some 5, createdAt = 20, verifiedPurchase = False\<rparr>,
         \<lparr>productId = 0, username = ''Krishna'',
          c_comment = ''Excellent quality and fast delivery. Highly recommended.'',
          c_rating = Some 4, createdAt = 20, verifiedPurchase = False\<rparr>]\<rparr>)
   \<and> seedComments 20 commented_store = (Completed, commented_store)"
proof -
  have h1: "comments ghee_store = [] \<and> products ghee_store \<noteq> []"
    by (simp add: ghee_store_def)
  have ps: "products ghee_store = [ghee]" by (simp add: ghee_store_def)
  have oid: "p_oid ghee = 0" by (simp add: ghee_def)
  have h2: "comments commented_store \<noteq> [] \<or> products commented_store = []"
    by code_simp
  from seedComments_writes [of ghee_store 20] h1 have first: "seedComments 20 ghee_store =
     (Completed,
      ghee_store\<lparr>comments :=
        [\<lparr>productId = 0, username = ''Radha'',
          c_comment = ''This is the best ghee I have ever tasted! So pure and aromatic.'',
          c_rating = Some 5, createdAt = 20, verifiedPurchase = False\<rparr>,
         \<lparr>productId = 0, username = ''Krishna'',
          c_comment = ''Excellent quality and fast delivery. Highly recommended.'',
          c_rating = Some 4, createdAt = 20, verifiedPurchase = False\<rparr>]\<rparr>)"
    by (simp add: ps oid)
  from seedComments_writes [of commented_store 20] h2
  have "seedComments 20 commented_store = (Completed, commented_store)" by blast
  with first show ?thesis by blast
qed

section \<open>The plain-comment endpoint\<close>

lemma save_comment_Some:
  "save_comment c s = Some s1 \<Longrightarrow> s1 = s\<lparr>comments := comments s @ [c]\<rparr>"
  by (auto simp: save_comment_def split: if_splits)

text \<open>
  Claim C10. A comment created through \<^verbatim>\<open>POST /product/:id/comment\<close> is stored
  without rating and with \<open>verifiedPurchase = False\<close>, whatever rating the body carries
  and whatever orders exist; the endpoint never changes the Products collection.
\<close>

theorem plain_comment:
  "(postComment idParam b now s = (Status201 c, s') \<longrightarrow>
      c_rating c = None \<and> verifiedPurchase c = False \<and>
      comments s' = comments s @ [c] \<and> products s' = products s \<and> orders s' = orders s)
   \<and> products (snd (postComment idParam b now s)) = products s
   \<and> postComment idParam (b\<lparr>cb_rating := r\<rparr>) now s = postComment idParam b now s
   \<and> postComment idParam b now (s\<lparr>orders := os\<rparr>) =
       (fst (postComment idParam b now s), (snd (postComment idParam b now s))\<lparr>orders := os\<rparr>)"
proof -
  have created: "c_rating c = None \<and> verifiedPurchase c = False \<and>
      comments s' = comments s @ [c] \<and> products s' = products s \<and> orders s' = orders s"
    if "postComment idParam b now s = (Status201 c, s')"
    using that
    by (auto simp: postComment_def mkComment_def Let_def
          split: option.splits if_splits dest!: save_comment_Some)
  have untouched: "products (snd (postComment idParam b now s)) = products s"
    by (auto simp: postComment_def Let_def save_comment_def split: option.splits if_splits)
  have rating_ignored:
    "postComment idParam (b\<lparr>cb_rating := r\<rparr>) now s = postComment idParam b now s"
    by (simp add: postComment_def)
  have orders_ignored: "postComment idParam b now (s\<lparr>orders := os\<rparr>) =
       (fst (postComment idParam b now s), (snd (postComment idParam b now s))\<lparr>orders := os\<rparr>)"
    by (auto simp: postComment_def Let_def save_comment_def split: option.splits if_splits)
  from created untouched rating_ignored orders_ignored show ?thesis by blast
qed

theorem plain_comment_witness:
  "postComment (Some 0) plain_body 10 ghee_store =
     (Status201 \<lparr>productId = 0, username = ''Gopal'', c_comment = ''Is it A2 milk?'',
                 c_rating = None, createdAt = 10, verifiedPurchase = False\<rparr>,
      ghee_store\<lparr>comments :=
        [\<lparr>productId = 0, username = ''Gopal'', c_comment = ''Is it A2 milk?'',
          c_rating = None, createdAt = 10, verifiedPurchase = False\<rparr>]\<rparr>)
   \<and> cb_rating plain_body = Some 3
   \<and> isVerifiedPurchase ghee_store 7 ''Gopal'' = False
   \<and> isVerifiedPurchase ghee_store 7 ''Das'' = True"
proof -
  have run: "postComment (Some 0) plain_body 10 ghee_store =
     (Status201 \<lparr>productId = 0, username = ''Gopal'', c_comment = ''Is it A2 milk?'',
                 c_rating = None, createdAt = 10, verifiedPurchase = False\<rparr>,
      ghee_store\<lparr>comments :=
        [\<lparr>productId = 0, username = ''Gopal'', c_comment = ''Is it A2 milk?'',
          c_rating = None, createdAt = 10, verifiedPurchase = False\<rparr>]\<rparr>)"
    by code_simp
  have "c_rating \<lparr>productId = 0, username = ''Gopal'', c_comment = ''Is it A2 milk?'',
                 c_rating = None, createdAt = 10, verifiedPurchase = False\<rparr> = None"
    using plain_comment [of "Some 0" plain_body 10 ghee_store] run by blast
  moreover have "cb_rating plain_body = Some 3" by code_simp
  moreover have "isVerifiedPurchase ghee_store 7 ''Gopal'' = False" by code_simp
  moreover have "isVerifiedPurchase ghee_store 7 ''Das'' = True" by code_simp
  ultimately show ?thesis using run by blast
qed

section \<open>Validation of a review\<close>

lemma refresh_rating_not_400: "fst (refresh_rating outage product c s) \<noteq> Status400"
  by (simp add: refresh_rating_def Let_def split: list.splits option.splits)


text \<open>
  Claim C3, amended. A review whose user name or comment text is missing or empty, or
  whose rating is missing or a number below 1 or above 5, is answered with the
  validation failure 400 and the store is left as it was; no other review is answered
  400. (A rating between 1 and 5 that is not an integer passes: \<^verbatim>\<open>parseInt\<close>
  truncates it.)
\<close>

theorem review_validation:
  "(rb_user b = None \<or> rb_user b = Some [] \<or> rb_comment b = None \<or> rb_comment b = Some [] \<or>
    rb_rating b = None \<or> (\<exists>r. rb_rating b = Some r \<and> (r < 1 \<or> 5 < r))
      \<longrightarrow> submitReview lid b now outage s = (Status400, s))
   \<and> (fst (submitReview lid b now outage s) = Status400
      \<longrightarrow> rb_user b = None \<or> rb_user b = Some [] \<or> rb_comment b = None \<or>
          rb_comment b = Some [] \<or> rb_rating b = None \<or>
          (\<exists>r. rb_rating b = Some r \<and> (r < 1 \<or> 5 < r)))"
proof -
  have rejected: "submitReview lid b now outage s = (Status400, s)"
    if "rb_user b = None \<or> rb_user b = Some [] \<or> rb_comment b = None \<or> rb_comment b = Some [] \<or>
        rb_rating b = None \<or> (\<exists>r. rb_rating b = Some r \<and> (r < 1 \<or> 5 < r))"
    using that by (auto simp: submitReview_def split: option.splits)
  have only: "rb_user b = None \<or> rb_user b = Some [] \<or> rb_comment b = None \<or>
          rb_comment b = Some [] \<or> rb_rating b = None \<or>
          (\<exists>r. rb_rating b = Some r \<and> (r < 1 \<or> 5 < r))"
    if "fst (submitReview lid b now outage s) = Status400"
    using that refresh_rating_not_400
    by (auto simp: submitReview_def Let_def split: option.splits if_splits)
  from rejected only show ?thesis by blast
qed

theorem review_validation_witness:
  "submitReview 7 review0 20 None ghee_store = (Status400, ghee_store)"
proof -
  have "\<exists>r. rb_rating review0 = Some r \<and> (r < 1 \<or> 5 < r)"
    by (simp add: review0_def)
  with review_validation [of review0 7 20 None ghee_store] show ?thesis by blast
qed

text \<open>
  The claim as stated fails: the rating 9/2 is not an integer, yet the review is
  accepted, a Comment with rating 4 is inserted and the Product is updated.
\<close>

theorem fractional_rating_counterexample:
  "rb_user review_half = Some ''Radha'' \<and> rb_comment review_half = Some ''Aromatic.''
   \<and> rb_rating review_half = Some (9 / 2)
   \<and> fst (submitReview 7 review_half 20 None ghee_store) \<noteq> Status400
   \<and> comments (snd (submitReview 7 review_half 20 None ghee_store)) =
       comments ghee_store @
       [\<lparr>productId = 0, username = ''Radha'', c_comment = ''Aromatic.'',
         c_rating = Some 4, createdAt = 20, verifiedPurchase = False\<rparr>]
   \<and> products (snd (submitReview 7 review_half 20 None ghee_store)) \<noteq> products ghee_store"
  by code_simp

section \<open>Admin product creation\<close>

lemma foldl_max_legacyId:
  "foldl (\<lambda>best q. if legacyId best < legacyId q then q else best) p qs \<in> set (p # qs)
   \<and> (\<forall>q \<in> set (p # qs).
        legacyId q
          \<le> legacyId (foldl (\<lambda>best q. if legacyId best < legacyId q then q else best) p qs))"
proof (induction qs arbitrary: p)
  case Nil
  show ?case by simp
next
  case (Cons a qs)
  show ?case
  proof (cases "legacyId p < legacyId a")
    case True
    with Cons.IH [of a] show ?thesis by force
  next
    case False
    with Cons.IH [of p] show ?thesis by force
  qed
qed

lemma findOne_sort_desc_None: "findOne_sort_desc ps = None \<longleftrightarrow> ps = []"
  by (simp add: findOne_sort_desc_def split: list.splits)

lemma findOne_sort_desc_Some:
  assumes "findOne_sort_desc ps = Some p"
  shows "p \<in> set ps \<and> (\<forall>q \<in> set ps. legacyId q \<le> legacyId p)"
proof (cases ps)
  case Nil
  with assms show ?thesis by (simp add: findOne_sort_desc_def)
next
  case (Cons a qs)
  with assms have "p = foldl (\<lambda>best q. if legacyId best < legacyId q then q else best) a qs"
    by (simp add: findOne_sort_desc_def)
  with foldl_max_legacyId [of a qs] Cons show ?thesis by simp
qed

lemma findOne_sort_desc_Max:
  assumes "findOne_sort_desc ps = Some p"
  shows "legacyId p = Max (legacyId ` set ps)"
proof -
  from findOne_sort_desc_Some [OF assms]
  have "legacyId p \<in> legacyId ` set ps" and "\<forall>x \<in> legacyId ` set ps. x \<le> legacyId p"
    by auto
  then show ?thesis by (intro Max_eqI [symmetric]) auto
qed

lemma mkProduct_Some:
  "mkProduct b i lid d = Some p \<Longrightarrow> legacyId p = lid \<and> p_oid p = i"
  by (auto simp: mkProduct_def Let_def split: option.splits if_splits)

lemma insert_product_Some:
  "insert_product p s = Some s1 \<Longrightarrow>
     s1 = s\<lparr>products := products s @ [p], nextId := Suc (nextId s)\<rparr>
     \<and> (\<forall>q \<in> set (products s). legacyId q \<noteq> legacyId p)"
  by (auto simp: insert_product_def list_ex_iff split: if_splits)

lemma createProduct_created:
  assumes "createProduct body now s = (Status201 p, s')"
  shows "legacyId p = (case findOne_sort_desc (products s) of
                         Some lastProduct \<Rightarrow> legacyId lastProduct + 1 | None \<Rightarrow> 1)
         \<and> products s' = products s @ [p]"
  using assms
  by (auto simp: createProduct_def Let_def split: option.splits
        dest!: mkProduct_Some insert_product_Some)

lemma createProduct_cases:
  "(\<exists>p. createProduct body now s = (Status201 p, snd (createProduct body now s)))
   \<or> snd (createProduct body now s) = s"
  by (auto simp: createProduct_def Let_def split: option.splits)

lemma numbered_step:
  assumes "numbered s"
  shows "numbered (snd (createProduct body now s))"
proof -
  from createProduct_cases [of body now s] show ?thesis
  proof
    assume "\<exists>p. createProduct body now s = (Status201 p, snd (createProduct body now s))"
    then obtain p where run: "createProduct body now s = (Status201 p, snd (createProduct body now s))"
      by blast
    note c = createProduct_created [OF run]
    have "legacyId p = int (length (products s)) + 1"
    proof (cases "findOne_sort_desc (products s)")
      case None
      then have "products s = []" by (simp add: findOne_sort_desc_None)
      with c None show ?thesis by simp
    next
      case (Some lp)
      from findOne_sort_desc_Some [OF Some]
      have lp: "lp \<in> set (products s)" "\<forall>q \<in> set (products s). legacyId q \<le> legacyId lp"
        by auto
      have ids: "legacyId ` set (products s) = {1..int (length (products s))}"
        using assms unfolding numbered_def by (metis set_map set_upto)
      from lp(1) have ne: "products s \<noteq> []" by auto
      then have "int (length (products s)) \<in> legacyId ` set (products s)"
        unfolding ids by (cases "products s") auto
      then have "int (length (products s)) \<le> legacyId lp" using lp(2) by auto
      moreover have "legacyId lp \<le> int (length (products s))"
        using lp(1) ids by auto
      ultimately show ?thesis using c Some by simp
    qed
    then have "map legacyId (products s @ [p]) = [1..int (length (products s @ [p]))]"
      using assms unfolding numbered_def by (simp add: upto_rec2)
    with c show ?thesis unfolding numbered_def by simp
  next
    assume "snd (createProduct body now s) = s"
    with assms show ?thesis by simp
  qed
qed

lemma numbered_createProducts:
  "numbered s \<Longrightarrow> numbered (createProducts bs now s)"
  by (induction bs arbitrary: s) (auto intro: numbered_step)

text \<open>
  Claim C7. A product created by \<^verbatim>\<open>POST /api/products\<close> gets the legacy id
  "largest existing legacy id plus 1", or 1 in a store without products. Creations one
  after the other into a store without products therefore number the products
  1, 2, 3, ... in the order of their creation, strictly increasing.
\<close>

theorem next_legacyId:
  "(createProduct body now s = (Status201 p, s') \<longrightarrow>
      legacyId p = (if products s = [] then 1 else Max (legacyId ` set (products s)) + 1)
      \<and> products s' = products s @ [p])
   \<and> (products s = [] \<longrightarrow>
        map legacyId (products (createProducts bs now s))
          = [1..int (length (products (createProducts bs now s)))]
        \<and> sorted_wrt (<) (map legacyId (products (createProducts bs now s))))"
proof -
  have one: "legacyId p = (if products s = [] then 1 else Max (legacyId ` set (products s)) + 1)
      \<and> products s' = products s @ [p]"
    if run: "createProduct body now s = (Status201 p, s')"
  proof (cases "findOne_sort_desc (products s)")
    case None
    then have "products s = []" by (simp add: findOne_sort_desc_None)
    with createProduct_created [OF run] None show ?thesis by simp
  next
    case (Some lp)
    then have "products s \<noteq> []" using findOne_sort_desc_None [of "products s"] by auto
    with createProduct_created [OF run] Some findOne_sort_desc_Max [OF Some]
    show ?thesis by simp
  qed
  have many: "map legacyId (products (createProducts bs now s))
          = [1..int (length (products (createProducts bs now s)))]
        \<and> sorted_wrt (<) (map legacyId (products (createProducts bs now s)))"
    if "products s = []"
  proof -
    from that have "numbered s" by (simp add: numbered_def)
    then have n: "numbered (createProducts bs now s)" by (rule numbered_createProducts)
    then have "map legacyId (products (createProducts bs now s))
          = [1..int (length (products (createProducts bs now s)))]"
      by (simp add: numbered_def)
    moreover have "sorted_wrt (<) [1..int (length (products (createProducts bs now s)))]"
      by (simp add: strict_sorted_iff)
    ultimately show ?thesis by simp
  qed
  from one many show ?thesis by blast
qed

theorem next_legacyId_witness:
  "fst (createProduct ghee_body 5 ghee_store) = Status201 (ghee\<lparr>p_oid := 1, legacyId := 8\<rparr>)
   \<and> map legacyId (products (createProducts [ghee_body, ghee_body, ghee_body] 5 empty_store))
       = [1, 2, 3]"
proof -
  have run: "createProduct ghee_body 5 ghee_store =
     (Status201 (ghee\<lparr>p_oid := 1, legacyId := 8\<rparr>),
      ghee_store\<lparr>products := [ghee, ghee\<lparr>p_oid := 1, legacyId := 8\<rparr>], nextId := 2\<rparr>)"
    by code_simp
  have e: "products empty_store = []" by (simp add: empty_store_def)
  have len: "length (products (createProducts [ghee_body, ghee_body, ghee_body] 5 empty_store)) = 3"
    by code_simp
  have "legacyId (ghee\<lparr>p_oid := 1, legacyId := 8\<rparr>) =
      (if products ghee_store = [] then 1 else Max (legacyId ` set (products ghee_store)) + 1)"
    using next_legacyId [of ghee_body 5 ghee_store _ _ "[]"] run by blast
  moreover have "map legacyId (products (createProducts [ghee_body, ghee_body, ghee_body] 5 empty_store))
       = [1..3]"
    using next_legacyId [of ghee_body 5 empty_store ghee empty_store "[ghee_body, ghee_body, ghee_body]"] e
    unfolding len by simp
  moreover have "[1..3] = [1, 2, 3::int]" by code_simp
  ultimately show ?thesis using run by simp
qed

section \<open>Review intake\<close>

lemma findOne_legacyId_Some:
  "findOne_legacyId ps lid = Some p \<Longrightarrow> p \<in> set ps \<and> legacyId p = lid"
  by (auto simp: findOne_legacyId_def find_Some_iff)

lemma aggregate_eq:
  "aggregate cs pid =
     (if match_productId cs pid = [] then []
      else [\<lparr>avgRating = avg (match_productId cs pid),
             st_count = length (match_productId cs pid)\<rparr>])"
  by (simp add: aggregate_def Let_def)

lemma match_productId_snoc:
  "match_productId (cs @ [c]) pid =
     (if productId c = pid then match_productId cs pid @ [c] else match_productId cs pid)"
  by (simp add: match_productId_def)

lemma aggregate_snoc_other:
  "productId c \<noteq> pid \<Longrightarrow> aggregate (cs @ [c]) pid = aggregate cs pid"
  by (simp add: aggregate_eq match_productId_snoc)

lemma set_rating_frame:
  "comments (set_rating i r n s) = comments s \<and> orders (set_rating i r n s) = orders s
   \<and> nextId (set_rating i r n s) = nextId s
   \<and> length (products (set_rating i r n s)) = length (products s)"
  by (simp add: set_rating_def)

lemma refresh_rating_cases:
  assumes "refresh_rating outage product c s1 = (resp, s')"
    and "aggregate (comments s1) (p_oid product) = [st]"
  shows "(resp = Status500 \<and> s' = s1)
         \<or> (resp = Status201 \<lparr>newComment = c, newRating = of_int (Math_round (avgRating st)),
                                newReviewsCount = int (st_count st)\<rparr>
            \<and> s' = set_rating (p_oid product) (of_int (Math_round (avgRating st)))
                     (int (st_count st)) s1)"
proof (cases "throws outage 3")
  case True
  with assms(1) show ?thesis by (simp add: refresh_rating_def)
next
  case False
  show ?thesis
  proof (cases "save_rating (throws outage 4)
                  (product\<lparr>p_rating := of_int (Math_round (avgRating st)),
                            reviewsCount := int (st_count st)\<rparr>) s1")
    case None
    with assms False show ?thesis by (simp add: refresh_rating_def Let_def)
  next
    case (Some s2)
    then have "s2 = set_rating (p_oid product) (of_int (Math_round (avgRating st)))
                     (int (st_count st)) s1"
      by (simp add: save_rating_def split: if_splits)
    with assms False Some show ?thesis by (simp add: refresh_rating_def Let_def)
  qed
qed

lemma submitReview_steps:
  assumes "submitReview lid b now outage s = (resp, s')"
  shows "(s' = s \<and> (resp = Status400 \<or> resp = Status404 \<or> resp = Status500))
         \<or> (\<exists>product c.
               findOne_legacyId (products s) lid = Some product \<and>
               productId c = p_oid product \<and> c_rating c \<noteq> None \<and>
               refresh_rating outage product c (s\<lparr>comments := comments s @ [c]\<rparr>) = (resp, s'))"
proof (cases "s' = s \<and> (resp = Status400 \<or> resp = Status404 \<or> resp = Status500)")
  case True
  then show ?thesis by blast
next
  case False
  with assms obtain user rating msg product where
    body: "rb_user b = Some user" "rb_rating b = Some rating" "rb_comment b = Some msg"
    and guard: "\<not> (user = [] \<or> rating = 0 \<or> msg = [] \<or> rating < 1 \<or> rating > 5)"
    and up: "\<not> throws outage 0" "\<not> throws outage 1" "\<not> throws outage 2"
    and found: "findOne_legacyId (products s) lid = Some product"
    by (auto simp: submitReview_def Let_def split: option.splits if_splits)
  define c where "c = mkComment (p_oid product) user (Some (of_int (parseInt rating))) msg now
                        (isVerifiedPurchase s lid user)"
  have pc: "productId c = p_oid product" and rc: "c_rating c \<noteq> None"
    by (simp_all add: c_def mkComment_def)
  from assms body guard up found
  have step: "(case save_comment c s of None \<Rightarrow> (Status500, s)
               | Some s1 \<Rightarrow> refresh_rating outage product c s1) = (resp, s')"
    unfolding c_def by (simp add: submitReview_def Let_def)
  have "refresh_rating outage product c (s\<lparr>comments := comments s @ [c]\<rparr>) = (resp, s')"
  proof (cases "validComment c")
    case True
    with step show ?thesis by (simp add: save_comment_def)
  next
    case False
    with step have "resp = Status500 \<and> s' = s" by (auto simp: save_comment_def)
    with \<open>\<not> (s' = s \<and> (resp = Status400 \<or> resp = Status404 \<or> resp = Status500))\<close>
    show ?thesis by blast
  qed
  with found pc rc show ?thesis by blast
qed

lemma submitReview_cases:
  assumes "submitReview lid b now outage s = (resp, s')"
  shows "(s' = s \<and> (resp = Status400 \<or> resp = Status404 \<or> resp = Status500))
         \<or> (\<exists>c. resp = Status500 \<and> s' = s\<lparr>comments := comments s @ [c]\<rparr>)
         \<or> (\<exists>product c st.
            findOne_legacyId (products s) lid = Some product \<and>
            productId c = p_oid product \<and> c_rating c \<noteq> None \<and>
            aggregate (comments s @ [c]) (p_oid product) = [st] \<and>
            resp = Status201 \<lparr>newComment = c, newRating = of_int (Math_round (avgRating st)),
                               newReviewsCount = int (st_count st)\<rparr> \<and>
            s' = set_rating (p_oid product) (of_int (Math_round (avgRating st)))
                   (int (st_count st)) (s\<lparr>comments := comments s @ [c]\<rparr>))"
proof (cases "s' = s \<and> (resp = Status400 \<or> resp = Status404 \<or> resp = Status500)")
  case True
  then show ?thesis by blast
next
  case False
  with submitReview_steps [OF assms]
  have "\<exists>product c.
               findOne_legacyId (products s) lid = Some product \<and>
               productId c = p_oid product \<and> c_rating c \<noteq> None \<and>
               refresh_rating outage product c (s\<lparr>comments := comments s @ [c]\<rparr>) = (resp, s')"
    by blast
  then show ?thesis
  proof (elim exE conjE)
  fix product c
  assume found: "findOne_legacyId (products s) lid = Some product"
    and pc: "productId c = p_oid product" and rc: "c_rating c \<noteq> None"
    and rr: "refresh_rating outage product c (s\<lparr>comments := comments s @ [c]\<rparr>) = (resp, s')"
  have ne: "match_productId (comments s @ [c]) (p_oid product) \<noteq> []"
    using pc by (simp add: match_productId_snoc)
  define st where "st = \<lparr>avgRating = avg (match_productId (comments s @ [c]) (p_oid product)),
                         st_count = length (match_productId (comments s @ [c]) (p_oid product))\<rparr>"
  have ag: "aggregate (comments s @ [c]) (p_oid product) = [st]"
    using ne by (simp add: aggregate_eq st_def)
  then have ag': "aggregate (comments (s\<lparr>comments := comments s @ [c]\<rparr>)) (p_oid product) = [st]"
    by simp
  from refresh_rating_cases [OF rr ag'] show ?thesis
  proof
    assume "resp = Status500 \<and> s' = s\<lparr>comments := comments s @ [c]\<rparr>"
    then show ?thesis by blast
  next
    assume "resp = Status201 \<lparr>newComment = c, newRating = of_int (Math_round (avgRating st)),
                                newReviewsCount = int (st_count st)\<rparr>
            \<and> s' = set_rating (p_oid product) (of_int (Math_round (avgRating st)))
                     (int (st_count st)) (s\<lparr>comments := comments s @ [c]\<rparr>)"
    with found pc rc ag show ?thesis by blast
  qed
  qed
qed

lemma submitReview_created:
  assumes "submitReview lid b now outage s = (Status201 res, s')"
  shows "\<exists>product c st.
            findOne_legacyId (products s) lid = Some product \<and>
            productId c = p_oid product \<and> c_rating c \<noteq> None \<and>
            aggregate (comments s @ [c]) (p_oid product) = [st] \<and>
            res = \<lparr>newComment = c, newRating = of_int (Math_round (avgRating st)),
                     newReviewsCount = int (st_count st)\<rparr> \<and>
            s' = set_rating (p_oid product) (of_int (Math_round (avgRating st)))
                   (int (st_count st)) (s\<lparr>comments := comments s @ [c]\<rparr>)"
  using submitReview_cases [OF assms] by blast

text \<open>
  Claim C9. A successful review submission leaves the Orders alone, appends exactly
  the new Comment to the Comments, and changes no Product except in the fields
  \<^verbatim>\<open>rating\<close> and \<^verbatim>\<open>reviewsCount\<close> of the target, the product with the submitted
  legacy id that the new Comment references: every product keeps all its other fields,
  and a product other than the target is unchanged.
\<close>

theorem review_frame:
  assumes "submitReview lid b now outage s = (Status201 res, s')"
  shows "orders s' = orders s \<and> nextId s' = nextId s
         \<and> comments s' = comments s @ [newComment res]
         \<and> (\<exists>target \<in> set (products s).
               legacyId target = lid \<and> p_oid target = productId (newComment res))
         \<and> length (products s') = length (products s)
         \<and> (\<forall>i < length (products s).
               products s' ! i =
                 (products s ! i)\<lparr>p_rating := p_rating (products s' ! i),
                                   reviewsCount := reviewsCount (products s' ! i)\<rparr>
               \<and> (p_oid (products s ! i) \<noteq> productId (newComment res)
                    \<longrightarrow> products s' ! i = products s ! i))"
  using submitReview_created [OF assms]
proof (elim exE conjE)
  fix product c st
  assume found: "findOne_legacyId (products s) lid = Some product"
    and pc: "productId c = p_oid product"
    and res: "res = \<lparr>newComment = c, newRating = of_int (Math_round (avgRating st)),
                               newReviewsCount = int (st_count st)\<rparr>"
    and s': "s' = set_rating (p_oid product) (of_int (Math_round (avgRating st)))
                   (int (st_count st)) (s\<lparr>comments := comments s @ [c]\<rparr>)"
  have nc: "newComment res = c" by (simp add: res)
  from findOne_legacyId_Some [OF found] pc
  have target: "\<exists>target \<in> set (products s).
               legacyId target = lid \<and> p_oid target = productId (newComment res)"
    unfolding nc by auto
  have rest: "orders s' = orders s" "nextId s' = nextId s"
    "comments s' = comments s @ [newComment res]" "length (products s') = length (products s)"
    by (simp_all add: s' set_rating_def nc)
  have each: "products s' ! i =
                 (products s ! i)\<lparr>p_rating := p_rating (products s' ! i),
                                   reviewsCount := reviewsCount (products s' ! i)\<rparr>
               \<and> (p_oid (products s ! i) \<noteq> productId (newComment res)
                    \<longrightarrow> products s' ! i = products s ! i)"
    if "i < length (products s)" for i
    using that by (simp add: s' set_rating_def nc pc)
  from rest target each show ?thesis by blast
qed

theorem review_frame_witness:
  "submitReview 7 review5 20 None commented_store =
     (Status201 \<lparr>newComment = \<lparr>productId = 0, username = ''Krishna'', c_comment = ''Pure.'',
                    c_rating = Some 5, createdAt = 20, verifiedPurchase = True\<rparr>,
                 newRating = 5, newReviewsCount = 2\<rparr>,
      commented_store\<lparr>products := [ghee\<lparr>p_rating := 5, reviewsCount := 2\<rparr>],
        comments := comments commented_store @
          [\<lparr>productId = 0, username = ''Krishna'', c_comment = ''Pure.'',
            c_rating = Some 5, createdAt = 20, verifiedPurchase = True\<rparr>]\<rparr>)
   \<and> orders (commented_store\<lparr>products := [ghee\<lparr>p_rating := 5, reviewsCount := 2\<rparr>],
        comments := comments commented_store @
          [\<lparr>productId = 0, username = ''Krishna'', c_comment = ''Pure.'',
            c_rating = Some 5, createdAt = 20, verifiedPurchase = True\<rparr>]\<rparr>)
       = orders commented_store"
proof -
  have run: "submitReview 7 review5 20 None commented_store =
     (Status201 \<lparr>newComment = \<lparr>productId = 0, username = ''Krishna'', c_comment = ''Pure.'',
                    c_rating = Some 5, createdAt = 20, verifiedPurchase = True\<rparr>,
                 newRating = 5, newReviewsCount = 2\<rparr>,
      commented_store\<lparr>products := [ghee\<lparr>p_rating := 5, reviewsCount := 2\<rparr>],
        comments := comments commented_store @
          [\<lparr>productId = 0, username = ''Krishna'', c_comment = ''Pure.'',
            c_rating = Some 5, createdAt = 20, verifiedPurchase = True\<rparr>]\<rparr>)"
    by code_simp
  from review_frame [OF run] run show ?thesis by blast
qed

section \<open>Rating aggregation\<close>

lemma Math_round_Some: "Math_round (Some q) = round q"
  by (simp add: Math_round_def round_def)

lemma Math_round_None: "Math_round None = 0"
  by (simp add: Math_round_def)

lemma avg_eq:
  "avg ms =
     (if List.map_filter c_rating ms = [] then None
      else Some (sum_list (List.map_filter c_rating ms)
                 / of_nat (length (List.map_filter c_rating ms))))"
  by (simp add: avg_def Let_def)

lemma match_productId_filter: "match_productId cs pid = filter (\<lambda>c. productId c = pid) cs"
  by (simp add: match_productId_def)

lemma aggregate_single:
  assumes "aggregate cs pid = [st]"
  shows "st_count st = length (filter (\<lambda>c. productId c = pid) cs)
         \<and> Math_round (avgRating st) =
             (if List.map_filter c_rating (filter (\<lambda>c. productId c = pid) cs) = [] then 0
              else round (sum_list (List.map_filter c_rating (filter (\<lambda>c. productId c = pid) cs))
                          / of_nat (length (List.map_filter c_rating
                                              (filter (\<lambda>c. productId c = pid) cs)))))"
proof -
  define ms where "ms = filter (\<lambda>c. productId c = pid) cs"
  from assms have st: "st = \<lparr>avgRating = avg ms, st_count = length ms\<rparr>"
    by (simp add: aggregate_eq match_productId_filter ms_def split: if_splits)
  have "st_count st = length ms" by (simp add: st)
  moreover have "Math_round (avgRating st) =
      (if List.map_filter c_rating ms = [] then 0
       else round (sum_list (List.map_filter c_rating ms)
                   / of_nat (length (List.map_filter c_rating ms))))"
  proof (cases "List.map_filter c_rating ms = []")
    case True
    then have "avgRating st = None" by (simp add: st avg_eq)
    with True show ?thesis by (simp add: Math_round_None)
  next
    case False
    then have "avgRating st = Some (sum_list (List.map_filter c_rating ms)
                   / of_nat (length (List.map_filter c_rating ms)))"
      by (simp add: st avg_eq)
    with False show ?thesis by (simp only: Math_round_Some if_False)
  qed
  ultimately show ?thesis unfolding ms_def by blast
qed

lemma aggregate_Nil_iff: "aggregate cs pid = [] \<longleftrightarrow> filter (\<lambda>c. productId c = pid) cs = []"
  by (simp add: aggregate_eq match_productId_filter)

lemma Math_round_13_3: "Math_round (Some (13 / 3)) = 4"
  by code_simp

lemma Math_round_9_2: "Math_round (Some (9 / 2)) = 5"
  by code_simp

lemma set_rating_target:
  assumes "p \<in> set (products (set_rating i r n s))" "p_oid p = i"
  shows "p_rating p = r \<and> reviewsCount p = n"
proof -
  from assms(1) obtain q where q: "q \<in> set (products s)"
    and p: "p = (if p_oid q = i then q\<lparr>p_rating := r, reviewsCount := n\<rparr> else q)"
    unfolding set_rating_def by auto
  show ?thesis
  proof (cases "p_oid q = i")
    case True
    with p show ?thesis by simp
  next
    case False
    with p assms(2) show ?thesis by simp
  qed
qed

lemma map_filter_snoc_Some:
  "f c = Some y \<Longrightarrow> List.map_filter f (xs @ [c]) = List.map_filter f xs @ [y]"
  by (simp add: List.map_filter_def)


lemma submitReview_rated:
  assumes run: "submitReview lid b now outage s = (Status201 res, s')"
  shows "List.map_filter c_rating
           (filter (\<lambda>c. productId c = productId (newComment res)) (comments s')) \<noteq> []
         \<and> newRating res =
             of_int (round (sum_list (List.map_filter c_rating
                               (filter (\<lambda>c. productId c = productId (newComment res)) (comments s')))
                            / of_nat (length (List.map_filter c_rating
                               (filter (\<lambda>c. productId c = productId (newComment res)) (comments s'))))))
         \<and> newReviewsCount res =
             int (length (filter (\<lambda>c. productId c = productId (newComment res)) (comments s')))
         \<and> (\<forall>p \<in> set (products s'). p_oid p = productId (newComment res) \<longrightarrow>
               p_rating p = newRating res \<and> reviewsCount p = newReviewsCount res)"
  using submitReview_created [OF run]
proof (elim exE conjE)
  fix product c st
  assume pc: "productId c = p_oid product"
    and rc: "c_rating c \<noteq> None"
    and ag: "aggregate (comments s @ [c]) (p_oid product) = [st]"
    and res: "res = \<lparr>newComment = c, newRating = of_int (Math_round (avgRating st)),
                             newReviewsCount = int (st_count st)\<rparr>"
    and s': "s' = set_rating (p_oid product) (of_int (Math_round (avgRating st)))
                 (int (st_count st)) (s\<lparr>comments := comments s @ [c]\<rparr>)"
  have nc: "productId (newComment res) = p_oid product" by (simp add: res pc)
  have nr: "newRating res = of_int (Math_round (avgRating st))" by (simp add: res)
  have nn: "newReviewsCount res = int (st_count st)" by (simp add: res)
  have cs': "comments s' = comments s @ [c]" by (simp add: s' set_rating_def)
  define ms where "ms = filter (\<lambda>c. productId c = p_oid product) (comments s @ [c])"
  define rs where "rs = List.map_filter c_rating ms"
  from rc obtain y where y: "c_rating c = Some y" by auto
  have "ms = filter (\<lambda>c. productId c = p_oid product) (comments s) @ [c]"
    by (simp add: ms_def pc)
  then have "rs = List.map_filter c_rating
                    (filter (\<lambda>c. productId c = p_oid product) (comments s)) @ [y]"
    unfolding rs_def using map_filter_snoc_Some [of c_rating c y] y by simp
  then have ne: "rs \<noteq> []" by simp
  from aggregate_single [OF ag]
  have "st_count st = length ms"
    and "Math_round (avgRating st) =
           (if rs = [] then 0 else round (sum_list rs / of_nat (length rs)))"
    unfolding ms_def rs_def by blast+
  with ne have st: "st_count st = length ms"
    "Math_round (avgRating st) = round (sum_list rs / of_nat (length rs))"
    by simp_all
  have stored: "p_rating p = newRating res \<and> reviewsCount p = newReviewsCount res"
    if p: "p \<in> set (products s')" and oid: "p_oid p = productId (newComment res)" for p
  proof -
    from p have "p \<in> set (products (set_rating (p_oid product)
                   (of_int (Math_round (avgRating st))) (int (st_count st))
                   (s\<lparr>comments := comments s @ [c]\<rparr>)))"
      by (simp only: s')
    from set_rating_target [OF this] oid nc show ?thesis
      by (simp only: nr nn)
  qed
  have "rs \<noteq> [] \<and> newRating res = of_int (round (sum_list rs / of_nat (length rs)))
        \<and> newReviewsCount res = int (length ms)
        \<and> (\<forall>p \<in> set (products s'). p_oid p = productId (newComment res) \<longrightarrow>
               p_rating p = newRating res \<and> reviewsCount p = newReviewsCount res)"
    using ne st stored nr nn by simp
  then show ?thesis
    unfolding rs_def ms_def nc cs' .
qed


text \<open>
  Claim C1, amended. After a review insert the aggregation yields, for the product of
  the new Comment: rating = the arithmetic mean of the ratings of the Comments of that
  product that have a rating (there is one at least, the new one), rounded to the
  nearest integer, a half rounded up; count = the number of all Comments of that
  product, rated or not. Both are returned and stored on the product. On any comment
  set: no group exists exactly when no Comment references the product; a group counts
  all referencing Comments and its rounded rating is 0 when none of them is rated.
  Ratings 5, 4, 4 give rating 4 and 5, 5, 4, 4 give rating 5.
\<close>

theorem rating_aggregator:
  "(submitReview lid b now outage s = (Status201 res, s') \<longrightarrow>
      (let ms = filter (\<lambda>c. productId c = productId (newComment res)) (comments s');
           rs = List.map_filter c_rating ms
       in rs \<noteq> [] \<and>
          newRating res = of_int (round (sum_list rs / of_nat (length rs))) \<and>
          newReviewsCount res = int (length ms) \<and>
          (\<forall>p \<in> set (products s'). p_oid p = productId (newComment res) \<longrightarrow>
             p_rating p = newRating res \<and> reviewsCount p = newReviewsCount res)))
   \<and> (aggregate cs pid = [] \<longleftrightarrow> filter (\<lambda>c. productId c = pid) cs = [])
   \<and> (\<forall>st. aggregate cs pid = [st] \<longrightarrow>
         (let ms = filter (\<lambda>c. productId c = pid) cs; rs = List.map_filter c_rating ms
          in st_count st = length ms \<and>
             Math_round (avgRating st) =
               (if rs = [] then 0 else round (sum_list rs / of_nat (length rs)))))
   \<and> map (\<lambda>st. (Math_round (avgRating st), st_count st))
         (aggregate [rated pid 5, rated pid 4, rated pid 4] pid) = [(4, 3)]
   \<and> map (\<lambda>st. (Math_round (avgRating st), st_count st))
         (aggregate [rated pid 5, rated pid 5, rated pid 4, rated pid 4] pid) = [(5, 4)]"
proof -
  have intake: "(let ms = filter (\<lambda>c. productId c = productId (newComment res)) (comments s');
           rs = List.map_filter c_rating ms
       in rs \<noteq> [] \<and>
          newRating res = of_int (round (sum_list rs / of_nat (length rs))) \<and>
          newReviewsCount res = int (length ms) \<and>
          (\<forall>p \<in> set (products s'). p_oid p = productId (newComment res) \<longrightarrow>
             p_rating p = newRating res \<and> reviewsCount p = newReviewsCount res))"
    if run: "submitReview lid b now outage s = (Status201 res, s')"
    unfolding Let_def using submitReview_rated [OF run] .
  have none: "aggregate cs pid = [] \<longleftrightarrow> filter (\<lambda>c. productId c = pid) cs = []"
    by (rule aggregate_Nil_iff)
  have single: "\<forall>st. aggregate cs pid = [st] \<longrightarrow>
         (let ms = filter (\<lambda>c. productId c = pid) cs; rs = List.map_filter c_rating ms
          in st_count st = length ms \<and>
             Math_round (avgRating st) =
               (if rs = [] then 0 else round (sum_list rs / of_nat (length rs))))"
    unfolding Let_def using aggregate_single by blast
  have ms1: "match_productId [rated pid 5, rated pid 4, rated pid 4] pid
               = [rated pid 5, rated pid 4, rated pid 4]"
    by (simp add: match_productId_filter rated_def mkComment_def)
  have rs1: "List.map_filter c_rating [rated pid 5, rated pid 4, rated pid 4] = [5, 4, 4]"
    by (simp add: List.map_filter_def rated_def mkComment_def)
  have a1: "avg [rated pid 5, rated pid 4, rated pid 4] = Some (13 / 3)"
    unfolding avg_eq rs1 by simp
  have ex1: "map (\<lambda>st. (Math_round (avgRating st), st_count st))
         (aggregate [rated pid 5, rated pid 4, rated pid 4] pid) = [(4, 3)]"
    unfolding aggregate_eq ms1 a1 by (simp add: Math_round_13_3)
  have ms2: "match_productId [rated pid 5, rated pid 5, rated pid 4, rated pid 4] pid
               = [rated pid 5, rated pid 5, rated pid 4, rated pid 4]"
    by (simp add: match_productId_filter rated_def mkComment_def)
  have rs2: "List.map_filter c_rating [rated pid 5, rated pid 5, rated pid 4, rated pid 4]
               = [5, 5, 4, 4]"
    by (simp add: List.map_filter_def rated_def mkComment_def)
  have a2: "avg [rated pid 5, rated pid 5, rated pid 4, rated pid 4] = Some (9 / 2)"
    unfolding avg_eq rs2 by simp
  have ex2: "map (\<lambda>st. (Math_round (avgRating st), st_count st))
         (aggregate [rated pid 5, rated pid 5, rated pid 4, rated pid 4] pid) = [(5, 4)]"
    unfolding aggregate_eq ms2 a2 by (simp add: Math_round_9_2)
  from intake none single ex1 ex2 show ?thesis by blast
qed

theorem rating_aggregator_witness:
  "submitReview 7 review5 20 None commented_store = (Status201 review5_result, reviewed_store)
   \<and> List.map_filter c_rating
         (filter (\<lambda>c. productId c = productId (newComment review5_result))
            (comments reviewed_store)) \<noteq> []
   \<and> newReviewsCount review5_result =
       int (length (filter (\<lambda>c. productId c = productId (newComment review5_result))
                      (comments reviewed_store)))
   \<and> aggregate (comments commented_store) 0 = [\<lparr>avgRating = None, st_count = 1\<rparr>]
   \<and> Math_round None = 0"
proof -
  have run: "submitReview 7 review5 20 None commented_store = (Status201 review5_result, reviewed_store)"
    by code_simp
  have ag: "aggregate (comments commented_store) 0 = [\<lparr>avgRating = None, st_count = 1\<rparr>]"
    by code_simp
  have z: "Math_round None = 0" by (simp add: Math_round_def)
  from rating_aggregator [of 7 review5 20 None commented_store review5_result reviewed_store
      "comments commented_store" 0] run
  have "List.map_filter c_rating
         (filter (\<lambda>c. productId c = productId (newComment review5_result))
            (comments reviewed_store)) \<noteq> []
   \<and> newReviewsCount review5_result =
       int (length (filter (\<lambda>c. productId c = productId (newComment review5_result))
                      (comments reviewed_store)))"
    unfolding Let_def by blast
  with run ag z show ?thesis by blast
qed

text \<open>
  The claim as stated fails: the product has one Comment without rating and the new
  review; the count returned and stored is 2, while one Comment only is rated.
\<close>

theorem review_count_counterexample:
  "fst (submitReview 7 review5 20 None commented_store) =
     Status201 \<lparr>newComment = krishna_review, newRating = 5, newReviewsCount = 2\<rparr>
   \<and> map reviewsCount (products (snd (submitReview 7 review5 20 None commented_store))) = [2]
   \<and> List.map_filter c_rating
        (match_productId (comments (snd (submitReview 7 review5 20 None commented_store))) 0) = [5]"
  by code_simp


section \<open>Consistency of the cached rating\<close>

lemma consistent_product_target:
  assumes "aggregate cs (p_oid p) = [st]"
    and "p_rating p = of_int (Math_round (avgRating st))" and "reviewsCount p = int (st_count st)"
  shows "consistent_product cs p"
  using assms by (simp add: consistent_product_def)

lemma consistent_product_snoc_other:
  "productId c \<noteq> p_oid p \<Longrightarrow> consistent_product (cs @ [c]) p = consistent_product cs p"
  by (simp add: consistent_product_def aggregate_snoc_other)

lemma set_rating_member:
  assumes "p \<in> set (products (set_rating i r n s))"
  shows "(p_oid p = i \<and> p_rating p = r \<and> reviewsCount p = n)
         \<or> (p_oid p \<noteq> i \<and> p \<in> set (products s))"
proof -
  from assms obtain q where q: "q \<in> set (products s)"
    and p: "p = (if p_oid q = i then q\<lparr>p_rating := r, reviewsCount := n\<rparr> else q)"
    unfolding set_rating_def by auto
  show ?thesis
  proof (cases "p_oid q = i")
    case True
    with p show ?thesis by simp
  next
    case False
    with p q show ?thesis by simp
  qed
qed

text \<open>
  Claim C4, amended. After a successful review submission (answer 201) the target
  Product's cached pair is consistent with the aggregation over its Comments,
  whatever it was before, and a store that was consistent is consistent. A submission
  answered 400 or 404 leaves the store as it was. A submission answered 500 changes no
  Product; it leaves the store as it was or with the one new Comment inserted.
\<close>

theorem review_keeps_consistency:
  assumes run: "submitReview lid b now outage s = (resp, s')"
  shows "(\<forall>res. resp = Status201 res \<longrightarrow>
            (cached_consistent s \<longrightarrow> cached_consistent s') \<and>
            (\<forall>p \<in> set (products s'). p_oid p = productId (newComment res) \<longrightarrow>
               consistent_product (comments s') p))
         \<and> (resp = Status400 \<or> resp = Status404 \<longrightarrow> s' = s)
         \<and> (resp = Status500 \<longrightarrow>
              s' = s \<or> (\<exists>c. s' = s\<lparr>comments := comments s @ [c]\<rparr>))"
  using submitReview_cases [OF run]
proof (elim disjE)
  assume "s' = s \<and> (resp = Status400 \<or> resp = Status404 \<or> resp = Status500)"
  then show ?thesis by auto
next
  assume "\<exists>c. resp = Status500 \<and> s' = s\<lparr>comments := comments s @ [c]\<rparr>"
  then show ?thesis by auto
next
  assume "\<exists>product c st.
            findOne_legacyId (products s) lid = Some product \<and>
            productId c = p_oid product \<and> c_rating c \<noteq> None \<and>
            aggregate (comments s @ [c]) (p_oid product) = [st] \<and>
            resp = Status201 \<lparr>newComment = c, newRating = of_int (Math_round (avgRating st)),
                               newReviewsCount = int (st_count st)\<rparr> \<and>
            s' = set_rating (p_oid product) (of_int (Math_round (avgRating st)))
                   (int (st_count st)) (s\<lparr>comments := comments s @ [c]\<rparr>)"
  then show ?thesis
  proof (elim exE conjE)
  fix product c st
  assume pc: "productId c = p_oid product"
    and ag: "aggregate (comments s @ [c]) (p_oid product) = [st]"
    and resp: "resp = Status201 \<lparr>newComment = c, newRating = of_int (Math_round (avgRating st)),
                               newReviewsCount = int (st_count st)\<rparr>"
    and s': "s' = set_rating (p_oid product) (of_int (Math_round (avgRating st)))
                   (int (st_count st)) (s\<lparr>comments := comments s @ [c]\<rparr>)"
  have cs': "comments s' = comments s @ [c]" by (simp add: s' set_rating_def)
  have member: "(p_oid p = p_oid product \<and> p_rating p = of_int (Math_round (avgRating st))
                   \<and> reviewsCount p = int (st_count st))
                \<or> (p_oid p \<noteq> p_oid product \<and> p \<in> set (products s))"
    if "p \<in> set (products s')" for p
  proof -
    from that have "p \<in> set (products (set_rating (p_oid product)
                   (of_int (Math_round (avgRating st))) (int (st_count st))
                   (s\<lparr>comments := comments s @ [c]\<rparr>)))"
      by (simp only: s')
    from set_rating_member [OF this] show ?thesis by simp
  qed
  have target: "consistent_product (comments s') p"
    if "p \<in> set (products s')" "p_oid p = p_oid product" for p
  proof -
    from member [OF that(1)] that(2)
    have "p_rating p = of_int (Math_round (avgRating st))" "reviewsCount p = int (st_count st)"
      by auto
    moreover have "aggregate (comments s') (p_oid p) = [st]"
      using ag by (simp only: cs' that(2))
    ultimately show ?thesis by (intro consistent_product_target)
  qed
  have keep: "cached_consistent s'" if cons: "cached_consistent s"
    unfolding cached_consistent_def list_all_iff
  proof
    fix p assume p: "p \<in> set (products s')"
    show "consistent_product (comments s') p"
    proof (cases "p_oid p = p_oid product")
      case True
      with p show ?thesis by (rule target)
    next
      case False
      with member [OF p] have "p \<in> set (products s)" by simp
      with cons have "consistent_product (comments s) p"
        by (simp add: cached_consistent_def list_all_iff)
      moreover have "productId c \<noteq> p_oid p" using False pc by simp
      ultimately show ?thesis
        unfolding cs' by (simp add: consistent_product_snoc_other)
    qed
  qed
  have "newComment res = c" if "resp = Status201 res" for res
  proof -
    from that resp have "res = \<lparr>newComment = c, newRating = of_int (Math_round (avgRating st)),
                               newReviewsCount = int (st_count st)\<rparr>"
      by simp
    then show ?thesis by simp
  qed
  with keep target pc resp show ?thesis by simp
  qed
qed

theorem review_keeps_consistency_witness:
  "submitReview 7 review5 20 None commented_store = (Status201 review5_result, reviewed_store)
   \<and> \<not> cached_consistent commented_store
   \<and> cached_consistent reviewed_store
   \<and> cached_consistent ghee_store
   \<and> (\<exists>res. fst (submitReview 7 review5 20 None ghee_store) = Status201 res)
   \<and> cached_consistent (snd (submitReview 7 review5 20 None ghee_store))
   \<and> submitReview 7 review0 20 None ghee_store = (Status400, ghee_store)
   \<and> submitReview 7 review5 20 (Some 3) ghee_store = (Status500, stale_store)
   \<and> stale_store = ghee_store\<lparr>comments := comments ghee_store @ [krishna_review]\<rparr>"
proof -
  have run: "submitReview 7 review5 20 None commented_store = (Status201 review5_result, reviewed_store)"
    by code_simp
  have before: "\<not> cached_consistent commented_store" by code_simp
  have ps: "products reviewed_store = [ghee\<lparr>p_rating := 5, reviewsCount := 2\<rparr>]"
    by code_simp
  have oid: "p_oid (ghee\<lparr>p_rating := 5, reviewsCount := 2\<rparr>) = productId (newComment review5_result)"
    by code_simp
  from review_keeps_consistency [OF run] ps oid
  have "consistent_product (comments reviewed_store) (ghee\<lparr>p_rating := 5, reviewsCount := 2\<rparr>)"
    by simp
  then have after: "cached_consistent reviewed_store"
    by (simp add: cached_consistent_def ps)
  have g: "cached_consistent ghee_store" by code_simp
  have ok: "fst (submitReview 7 review5 20 None ghee_store)
              = Status201 \<lparr>newComment = krishna_review, newRating = 5, newReviewsCount = 1\<rparr>"
    by code_simp
  have "submitReview 7 review5 20 None ghee_store
          = (Status201 \<lparr>newComment = krishna_review, newRating = 5, newReviewsCount = 1\<rparr>,
             snd (submitReview 7 review5 20 None ghee_store))"
    using ok by (simp add: prod_eq_iff)
  from review_keeps_consistency [OF this] g
  have kept: "cached_consistent (snd (submitReview 7 review5 20 None ghee_store))" by blast
  have r400: "submitReview 7 review0 20 None ghee_store = (Status400, ghee_store)" by code_simp
  have r500: "submitReview 7 review5 20 (Some 3) ghee_store = (Status500, stale_store)"
    by code_simp
  have st: "stale_store = ghee_store\<lparr>comments := comments ghee_store @ [krishna_review]\<rparr>"
    by code_simp
  from review_keeps_consistency [OF r500]
  have "stale_store = ghee_store \<or> (\<exists>c. stale_store = ghee_store\<lparr>comments := comments ghee_store @ [c]\<rparr>)"
    by blast
  with run before after g ok kept r400 r500 st show ?thesis by blast
qed

text \<open>
  The claim as stated fails. The store holding one product created by the admin
  endpoint is consistent; the seed step adds two rated Comments and leaves the cached
  pair at 0 and 0. The plain-comment endpoint likewise adds a Comment to the count of
  the aggregation and leaves the cached count. And review intake itself leaves a
  consistent store inconsistent when the aggregation or the save of the product
  throws after the Comment was inserted: the Comment stays, the cached pair is stale.
\<close>

theorem seeding_stale_counterexample:
  "cached_consistent created_store
   \<and> \<not> cached_consistent (snd (migrateAndSeed [] 20 created_store))
   \<and> cached_consistent ghee_store
   \<and> \<not> cached_consistent (snd (postComment (Some 0) plain_body 10 ghee_store))
   \<and> submitReview 7 review5 20 (Some 3) ghee_store = (Status500, stale_store)
   \<and> submitReview 7 review5 20 (Some 4) ghee_store = (Status500, stale_store)
   \<and> \<not> cached_consistent stale_store
   \<and> comments short_name_store = [] \<and> cached_consistent short_name_store
   \<and> fst (submitReview 7 review5 20 None short_name_store) = Status500
   \<and> comments (snd (submitReview 7 review5 20 None short_name_store)) = [krishna_review]
   \<and> products (snd (submitReview 7 review5 20 None short_name_store))
       = products short_name_store
   \<and> \<not> cached_consistent (snd (submitReview 7 review5 20 None short_name_store))"
  by code_simp

section \<open>Migration\<close>

lemma migrateProducts_present:
  "list_all (\<lambda>p. findOne_legacyId (products s) (l_id p) \<noteq> None) ps
     \<Longrightarrow> migrateProducts ps now s = (Completed, s)"
  by (induction ps) auto

lemma migrate_all_migrated: "all_migrated L s \<Longrightarrow> migrate L now s = (Completed, s)"
  by (simp add: migrate_def all_migrated_def migrateProducts_present)

lemma migrateAndSeed_all_migrated:
  "all_migrated L s \<Longrightarrow> migrateAndSeed L now s = seedComments now s"
  by (simp add: migrateAndSeed_def migrate_all_migrated)

lemma seedComments_products:
  "products (snd (seedComments now s)) = products s \<and> orders (snd (seedComments now s)) = orders s
   \<and> nextId (snd (seedComments now s)) = nextId s"
  by (simp add: seedComments_cases split: option.splits)

lemma seedComments_idle:
  "comments s \<noteq> [] \<or> products s = [] \<Longrightarrow> seedComments now s = (Completed, s)"
  by (auto simp: seedComments_cases findOne_sort_asc_def)

lemma seedComments_Completed:
  assumes "seedComments now s1 = (r, s)"
  shows "comments s \<noteq> [] \<or> products s = []"
proof (cases "comments s1 = []")
  case False
  with assms show ?thesis by (simp add: seedComments_cases)
next
  case True
  show ?thesis
  proof (cases "findOne_sort_asc (products s1)")
    case None
    then have "products s1 = []" by (simp add: findOne_sort_asc_None)
    moreover from assms True None have "s = s1" by (simp add: seedComments_cases)
    ultimately show ?thesis by simp
  next
    case (Some p)
    with assms True have "comments s \<noteq> []" by (auto simp: seedComments_cases)
    then show ?thesis by simp
  qed
qed

lemma migrateAndSeed_Completed:
  assumes "migrateAndSeed L now s0 = (Completed, s)"
  shows "comments s \<noteq> [] \<or> products s = []"
proof (cases "migrate L now s0")
  case (Pair r s1)
  show ?thesis
  proof (cases r)
    case Completed
    with assms Pair have "seedComments now s1 = (Completed, s)"
      by (simp add: migrateAndSeed_def)
    then show ?thesis by (rule seedComments_Completed)
  next
    case Caught
    with assms Pair show ?thesis by (simp add: migrateAndSeed_def)
  qed
qed

text \<open>
  Claim C6, amended. In a store where every legacy record has its Product, the
  pipeline creates no Product, and it does what the seed step alone does: nothing at
  all when the Comments collection is non-empty or no Product exists, the two sample
  comments otherwise. In particular a store that a completed run of the pipeline has
  left is not changed by running the pipeline again.
\<close>

theorem migration_idempotent:
  assumes "all_migrated L s"
  shows "products (snd (migrateAndSeed L now s)) = products s
         \<and> migrateAndSeed L now s = seedComments now s
         \<and> (comments s \<noteq> [] \<or> products s = [] \<longrightarrow> migrateAndSeed L now s = (Completed, s))
         \<and> (\<forall>now0 s0. migrateAndSeed L now0 s0 = (Completed, s)
               \<longrightarrow> migrateAndSeed L now s = (Completed, s))"
proof -
  have eq: "migrateAndSeed L now s = seedComments now s"
    using assms by (rule migrateAndSeed_all_migrated)
  have ps: "products (snd (migrateAndSeed L now s)) = products s"
    unfolding eq using seedComments_products by blast
  have idle: "migrateAndSeed L now s = (Completed, s)" if "comments s \<noteq> [] \<or> products s = []"
    unfolding eq using that by (rule seedComments_idle)
  have twice: "migrateAndSeed L now s = (Completed, s)"
    if "migrateAndSeed L now0 s0 = (Completed, s)" for now0 s0
    using idle migrateAndSeed_Completed [OF that] by blast
  from eq ps idle twice show ?thesis by blast
qed

theorem migration_idempotent_witness:
  "migrateAndSeed [legacy_ghee] 20 empty_store = (Completed, migrated_store)
   \<and> all_migrated [legacy_ghee] migrated_store
   \<and> migrateAndSeed [legacy_ghee] 30 migrated_store = (Completed, migrated_store)"
proof -
  have first: "migrateAndSeed [legacy_ghee] 20 empty_store = (Completed, migrated_store)"
    by code_simp
  have all: "all_migrated [legacy_ghee] migrated_store"
    by code_simp
  from migration_idempotent [OF all, of 30] first
  have "migrateAndSeed [legacy_ghee] 30 migrated_store = (Completed, migrated_store)"
    by blast
  with first all show ?thesis by blast
qed

text \<open>
  The claim as stated fails. With an empty legacy list and one product created by the
  admin endpoint, the pipeline creates two Comments. And when the first run stops at
  an embedded review that fails validation, it leaves the Product without Comments;
  the second run finds every legacy record migrated and creates two Comments.
\<close>

theorem seed_after_migration_counterexample:
  "all_migrated [] created_store
   \<and> length (products created_store) = 1 \<and> comments created_store = []
   \<and> length (comments (snd (migrateAndSeed [] 20 created_store))) = 2
   \<and> fst (migrateAndSeed [legacy_bad] 20 empty_store) = Caught
   \<and> all_migrated [legacy_bad] (snd (migrateAndSeed [legacy_bad] 20 empty_store))
   \<and> comments (snd (migrateAndSeed [legacy_bad] 20 empty_store)) = []
   \<and> length (comments (snd (migrateAndSeed [legacy_bad] 30
                               (snd (migrateAndSeed [legacy_bad] 20 empty_store))))) = 2"
  by code_simp

section \<open>Startup with an unreadable legacy file\<close>

text \<open>
  Claim C8, amended. When the legacy file cannot be read the legacy list is empty; if
  the connection succeeds the server goes on to listen; the migration step writes
  nothing (no Product is created, no Comment is migrated), so the Products and Orders
  are unchanged. The seed step still runs: the store the server starts with is the
  unchanged store when Comments exist or no Product exists, and otherwise the store
  with the two sample comments added for a product of minimal legacy id.
\<close>

theorem unreadable_legacy_file:
  "startServer None connectOk now s =
     (if connectOk then Listening (snd (seedComments now s)) else Exited)
   \<and> migrate [] now s = (Completed, s)
   \<and> (\<forall>s'. startServer None connectOk now s = Listening s' \<longrightarrow>
         products s' = products s \<and> orders s' = orders s \<and>
         (comments s \<noteq> [] \<or> products s = [] \<longrightarrow> s' = s) \<and>
         (comments s = [] \<and> products s \<noteq> [] \<longrightarrow>
            (\<exists>p \<in> set (products s).
               (\<forall>q \<in> set (products s). legacyId p \<le> legacyId q) \<and>
               s' = s\<lparr>comments := [seed_radha (p_oid p) now, seed_krishna (p_oid p) now]\<rparr>)))"
proof -
  have m: "migrate [] now s = (Completed, s)"
    by (simp add: migrate_def)
  then have ms: "migrateAndSeed [] now s = seedComments now s"
    by (simp add: migrateAndSeed_def)
  have run: "startServer None connectOk now s =
     (if connectOk then Listening (snd (seedComments now s)) else Exited)"
    by (simp add: startServer_def ms)
  have frame: "products s' = products s \<and> orders s' = orders s \<and>
         (comments s \<noteq> [] \<or> products s = [] \<longrightarrow> s' = s) \<and>
         (comments s = [] \<and> products s \<noteq> [] \<longrightarrow>
            (\<exists>p \<in> set (products s).
               (\<forall>q \<in> set (products s). legacyId p \<le> legacyId q) \<and>
               s' = s\<lparr>comments := [seed_radha (p_oid p) now, seed_krishna (p_oid p) now]\<rparr>))"
    if "startServer None connectOk now s = Listening s'" for s'
  proof -
    from that run have s': "s' = snd (seedComments now s)"
      by (simp split: if_splits)
    have idle: "s' = s" if "comments s \<noteq> [] \<or> products s = []"
      using seedComments_idle [OF that, of now] s' by simp
    have seeded: "\<exists>p \<in> set (products s).
               (\<forall>q \<in> set (products s). legacyId p \<le> legacyId q) \<and>
               s' = s\<lparr>comments := [seed_radha (p_oid p) now, seed_krishna (p_oid p) now]\<rparr>"
      if a: "comments s = [] \<and> products s \<noteq> []"
    proof -
      from a obtain p where p: "findOne_sort_asc (products s) = Some p"
        using findOne_sort_asc_None [of "products s"]
        by (cases "findOne_sort_asc (products s)") auto
      have "s' = s\<lparr>comments := [seed_radha (p_oid p) now, seed_krishna (p_oid p) now]\<rparr>"
        using a p s' by (simp add: seedComments_cases)
      with findOne_sort_asc_Some [OF p] show ?thesis by blast
    qed
    from seedComments_products [of now s] s' idle seeded show ?thesis by blast
  qed
  from run m frame show ?thesis by blast
qed

theorem unreadable_legacy_file_witness:
  "startServer None True 30 commented_store = Listening commented_store
   \<and> startServer None True 30 empty_store = Listening empty_store
   \<and> startServer None True 20 ghee_store
       = Listening (ghee_store\<lparr>comments := [seed_radha 0 20, seed_krishna 0 20]\<rparr>)"
proof -
  have c: "comments commented_store \<noteq> [] \<or> products commented_store = []" by code_simp
  have e: "comments empty_store \<noteq> [] \<or> products empty_store = []" by code_simp
  have g: "comments ghee_store = [] \<and> products ghee_store \<noteq> []" by code_simp
  have ps: "products ghee_store = [ghee]" by (simp add: ghee_store_def)
  have oid: "p_oid ghee = 0" by (simp add: ghee_def)
  have r1: "startServer None True 30 commented_store
              = Listening (snd (seedComments 30 commented_store))"
    using unreadable_legacy_file [of True 30 commented_store] by simp
  have r2: "startServer None True 30 empty_store = Listening (snd (seedComments 30 empty_store))"
    using unreadable_legacy_file [of True 30 empty_store] by simp
  have r3: "startServer None True 20 ghee_store = Listening (snd (seedComments 20 ghee_store))"
    using unreadable_legacy_file [of True 20 ghee_store] by simp
  from unreadable_legacy_file [of True 30 commented_store] r1 c
  have "snd (seedComments 30 commented_store) = commented_store" by blast
  moreover from unreadable_legacy_file [of True 30 empty_store] r2 e
  have "snd (seedComments 30 empty_store) = empty_store" by blast
  moreover from unreadable_legacy_file [of True 20 ghee_store] r3 g
  have "\<exists>p \<in> set (products ghee_store).
          snd (seedComments 20 ghee_store)
            = ghee_store\<lparr>comments := [seed_radha (p_oid p) 20, seed_krishna (p_oid p) 20]\<rparr>"
    by blast
  then have "snd (seedComments 20 ghee_store)
               = ghee_store\<lparr>comments := [seed_radha 0 20, seed_krishna 0 20]\<rparr>"
    by (simp add: ps oid)
  ultimately show ?thesis using r1 r2 r3 by simp
qed

text \<open>
  The claim as stated fails: with an unreadable legacy file, one Product and no
  Comment, the pipeline is not a no-op; the server starts on a store with two new
  Comments.
\<close>

theorem unreadable_file_seeds_counterexample:
  "comments ghee_store = []
   \<and> startServer None True 20 ghee_store \<noteq> Listening ghee_store
   \<and> startServer None True 20 ghee_store
       = Listening (ghee_store\<lparr>comments := [seed_radha 0 20, seed_krishna 0 20]\<rparr>)
   \<and> length (comments (ghee_store\<lparr>comments := [seed_radha 0 20, seed_krishna 0 20]\<rparr>)) = 2"
  by code_simp

end
